theory Spec2Isabelle
  imports Main
begin

section \<open>Procure-to-pay backend: data model\<close>

text \<open>
  The Django models of \<^verbatim>\<open>procurement/models.py\<close> as records. Primary keys (UUIDs in the
  source) are natural numbers; a foreign key holds the key of the row it points to. Role,
  status and action values stay the strings the source compares.
\<close>

record UserProfile =
  role :: string

text \<open>
  A caller as the views and permission classes read it: \<^verbatim>\<open>user.profile\<close> raises
  \<^verbatim>\<open>UserProfile.DoesNotExist\<close> exactly when there is no profile row, which is
  \<open>profile = None\<close> here. An anonymous caller has \<open>is_authenticated = False\<close>.
\<close>

record User =
  user_id :: nat
  is_authenticated :: bool
  is_superuser :: bool
  profile :: "UserProfile option"

record RequestType =
  rt_id :: nat
  rt_name :: string
  rt_is_active :: bool

record ApprovalLevel =
  al_id :: nat
  al_request_type :: nat
  level_number :: nat
  approver_role :: string
  is_required :: bool

text \<open>
  An uploaded or stored file, as far as the program reads it: its name and its size in
  bytes.
\<close>

record UploadedFile =
  file_name :: string
  file_size :: nat

text \<open>
  A finite \<^verbatim>\<open>decimal.Decimal\<close>: the integer coefficient (carrying the sign) and the
  exponent, so that the value is \<open>coefficient * 10 ^ exponent\<close>. \<^verbatim>\<open>Decimal('200.00')\<close> is
  \<open>\<lparr>coefficient = 20000, exponent = -2\<rparr>\<close>.
\<close>

record Decimal =
  coefficient :: int
  exponent :: int

record PurchaseRequest =
  pr_id :: nat
  title :: string
  description :: string
  amount :: Decimal
  status :: string
  request_type :: nat
  created_by :: nat
  approved_by :: "nat option"
  proforma :: "UploadedFile option"
  submitted_at :: "nat option"

text \<open>
  \<^verbatim>\<open>purchase_request_id\<close> of an Approval is an option because the post-save handler tests
  it; the column itself is NOT NULL, which \<open>Approval_objects_create\<close> below enforces.
\<close>

record Approval =
  ap_id :: nat
  purchase_request_id :: "nat option"
  approver :: nat
  approval_level :: nat
  action :: string
  comments :: "string option"
  ap_created_by :: "nat option"
  approved_at :: "nat option"
  rejected_at :: "nat option"

text \<open>
  The key of a RequestItem is an auto-incremented integer; an instance that was never
  saved has none.
\<close>

text \<open>
  The unit price of an instance in memory is whatever the caller assigned: a Decimal (or
  text that spells one), or a Python float, which the serializers pass. A float is held
  by the finite decimal that \<^verbatim>\<open>str()\<close> prints for it. A stored row always holds a Decimal.
\<close>

datatype number = DecimalNumber Decimal | FloatNumber Decimal

record RequestItem =
  ri_id :: "nat option"
  ri_purchase_request :: nat
  ri_description :: string
  quantity :: int
  unit_price :: number
  total_price :: "Decimal option"

text \<open>The background tasks of \<^verbatim>\<open>procurement/tasks.py\<close>, by the request id they are sent.\<close>

datatype task =
  generate_purchase_order_task nat
  | process_proforma nat
  | validate_receipt_task nat

text \<open>
  The database backend: \<^verbatim>\<open>settings.py\<close> configures PostgreSQL, and SQLite when the tests
  run. The two differ in how they store a value that does not fit a column.
\<close>

datatype backend = PostgreSQL | SQLite

text \<open>
  The state the views run against: the backend, the database tables (rows in insertion
  order), the sequence that numbers new RequestItem rows, and the queue of enqueued
  background tasks.
\<close>

record state =
  backend :: backend
  request_types :: "RequestType list"
  approval_levels :: "ApprovalLevel list"
  purchase_requests :: "PurchaseRequest list"
  approvals :: "Approval list"
  request_items :: "RequestItem list"
  item_seq :: nat
  tasks :: "task list"

text \<open>
  What reaches a serializer for one declared field. For the fields whose conversion is
  the framework's own (text, decimal, UUID and file fields), the outcome of that
  conversion is taken as given: the key is \<open>Missing\<close> from the request data, the framework
  refuses the value (\<open>Invalid\<close>), or it converts to \<open>Valid v\<close>.
\<close>

datatype 'a field = Missing | Invalid | Valid 'a

text \<open>
  Validation errors, by what raises them: the framework (\<open>Required\<close>, \<open>Refused\<close>) or a
  \<^verbatim>\<open>serializers.ValidationError\<close> of \<^verbatim>\<open>procurement/serializers.py\<close>. The two file errors
  carry the limit and the allow-list their messages print.
\<close>

datatype validation_error =
  Required
  | Refused
  | FileSizeExceeds int
  | FileTypeNotAllowed "string list"
  | InvalidItemsJSON
  | RequestTypeNotActive
  | NotPending

datatype body =
  Error string
  | Detail PurchaseRequest
  | FieldErrors "(string \<times> validation_error) list"

record Response =
  status_code :: nat
  data :: body

datatype db_error = IntegrityError | DataError | DoesNotExist

section \<open>Permission policies (\<^verbatim>\<open>procurement/permissions.py\<close>)\<close>

text \<open>
  \<^verbatim>\<open>request.user\<close> may be absent (\<^verbatim>\<open>not request.user\<close>), hence the option. The
  \<^verbatim>\<open>try/except UserProfile.DoesNotExist\<close> of each policy is the case split on the profile.
\<close>

definition IsAuthenticated :: "User option \<Rightarrow> bool" where
  "IsAuthenticated request_user =
     (case request_user of None \<Rightarrow> False | Some u \<Rightarrow> is_authenticated u)"

definition IsStaff :: "User option \<Rightarrow> bool" where
  "IsStaff request_user =
     (case request_user of
        None \<Rightarrow> False
      | Some u \<Rightarrow>
          if \<not> is_authenticated u then False
          else if is_superuser u then True
          else (case profile u of
                  Some p \<Rightarrow> role p = ''staff''
                | None \<Rightarrow> False))"

definition IsApproverLevel1 :: "User option \<Rightarrow> bool" where
  "IsApproverLevel1 request_user =
     (case request_user of
        None \<Rightarrow> False
      | Some u \<Rightarrow>
          if \<not> is_authenticated u then False
          else (case profile u of
                  Some p \<Rightarrow> role p = ''approver_level_1''
                | None \<Rightarrow> False))"

definition IsApproverLevel2 :: "User option \<Rightarrow> bool" where
  "IsApproverLevel2 request_user =
     (case request_user of
        None \<Rightarrow> False
      | Some u \<Rightarrow>
          if \<not> is_authenticated u then False
          else (case profile u of
                  Some p \<Rightarrow> role p = ''approver_level_2''
                | None \<Rightarrow> False))"

definition IsApprover :: "User option \<Rightarrow> bool" where
  "IsApprover request_user =
     (case request_user of
        None \<Rightarrow> False
      | Some u \<Rightarrow>
          if \<not> is_authenticated u then False
          else if is_superuser u then True
          else (case profile u of
                  Some p \<Rightarrow> role p \<in> set [''approver_level_1'', ''approver_level_2'']
                | None \<Rightarrow> False))"

section \<open>Purchase requests and the approval workflow\<close>

subsection \<open>Model properties and the rejection signal (\<^verbatim>\<open>procurement/models.py\<close>)\<close>

definition can_be_edited :: "PurchaseRequest \<Rightarrow> bool" where
  "can_be_edited pr \<longleftrightarrow> status pr = ''pending''"

definition is_final_status :: "PurchaseRequest \<Rightarrow> bool" where
  "is_final_status pr \<longleftrightarrow> status pr \<in> set [''approved'', ''rejected'']"

text \<open>
  The \<^verbatim>\<open>post_save\<close> receiver of Approval:
  \<^verbatim>\<open>PurchaseRequest.objects.filter(pk=instance.purchase_request_id).update(status='rejected')\<close>
  under the guard \<^verbatim>\<open>created and instance.action == 'rejected' and instance.purchase_request_id\<close>.
\<close>

definition update_purchase_request_status_on_rejection :: "state \<Rightarrow> Approval \<Rightarrow> bool \<Rightarrow> state" where
  "update_purchase_request_status_on_rejection st instance created =
     (if created \<and> action instance = ''rejected'' \<and> purchase_request_id instance \<noteq> None
      then st\<lparr>purchase_requests :=
                map (\<lambda>r. if Some (pr_id r) = purchase_request_id instance
                         then r\<lparr>status := ''rejected''\<rparr> else r)
                    (purchase_requests st)\<rparr>
      else st)"

text \<open>
  \<^verbatim>\<open>Approval.objects.create(...)\<close>: the INSERT, refused with an IntegrityError when the row
  breaks the primary key, the NOT NULL and foreign key of \<^verbatim>\<open>purchase_request\<close>, the foreign
  key of \<^verbatim>\<open>approval_level\<close> or \<^verbatim>\<open>unique_together\<close>; then the \<^verbatim>\<open>post_save\<close> signal with
  \<open>created = True\<close>.
\<close>

definition Approval_objects_create :: "state \<Rightarrow> Approval \<Rightarrow> db_error + state" where
  "Approval_objects_create st a =
     (if ap_id a \<in> set (map ap_id (approvals st)) then Inl IntegrityError
      else case purchase_request_id a of
        None \<Rightarrow> Inl IntegrityError
      | Some pid \<Rightarrow>
          if pid \<notin> set (map pr_id (purchase_requests st)) then Inl IntegrityError
          else if approval_level a \<notin> set (map al_id (approval_levels st)) then Inl IntegrityError
          else if \<exists>b \<in> set (approvals st).
                    purchase_request_id b = purchase_request_id a
                    \<and> approval_level b = approval_level a \<and> approver b = approver a
          then Inl IntegrityError
          else Inr (update_purchase_request_status_on_rejection
                      (st\<lparr>approvals := approvals st @ [a]\<rparr>) a True))"

text \<open>\<^verbatim>\<open>approval.save()\<close> on a stored row: the UPDATE, then the signal with \<open>created = False\<close>.\<close>

definition Approval_save :: "state \<Rightarrow> Approval \<Rightarrow> state" where
  "Approval_save st a =
     update_purchase_request_status_on_rejection
       (st\<lparr>approvals := map (\<lambda>b. if ap_id b = ap_id a then a else b) (approvals st)\<rparr>) a False"

text \<open>\<^verbatim>\<open>purchase_request.save()\<close> on a stored row: every column is written from the instance.\<close>

definition PurchaseRequest_save :: "state \<Rightarrow> PurchaseRequest \<Rightarrow> state" where
  "PurchaseRequest_save st pr =
     st\<lparr>purchase_requests :=
          map (\<lambda>r. if pr_id r = pr_id pr then pr else r) (purchase_requests st)\<rparr>"

subsection \<open>Request scoping (\<^verbatim>\<open>PurchaseRequestViewSet.get_queryset\<close>)\<close>

text \<open>What a view reads of the HTTP request besides its body.\<close>

record request =
  user :: "User option"
  status_param :: "string option"

definition status_filtered :: "request \<Rightarrow> PurchaseRequest list \<Rightarrow> PurchaseRequest list" where
  "status_filtered req queryset =
     (case status_param req of
        None \<Rightarrow> queryset
      | Some status_filter \<Rightarrow>
          if status_filter \<noteq> [] then filter (\<lambda>r. status r = status_filter) queryset
          else queryset)"

definition get_queryset :: "state \<Rightarrow> request \<Rightarrow> PurchaseRequest list" where
  "get_queryset st req =
     (case user req of
        None \<Rightarrow> []
      | Some u \<Rightarrow>
          if \<not> is_authenticated u then []
          else if is_superuser u then status_filtered req (purchase_requests st)
          else (case profile u of
                  None \<Rightarrow> []
                | Some p \<Rightarrow>
                    status_filtered req
                      (if role p = ''staff''
                       then filter (\<lambda>r. created_by r = user_id u) (purchase_requests st)
                       else purchase_requests st)))"

text \<open>\<^verbatim>\<open>get_object()\<close>: the row of the scoped queryset with this key; None is Http404.\<close>

definition get_object :: "state \<Rightarrow> request \<Rightarrow> nat \<Rightarrow> PurchaseRequest option" where
  "get_object st req pk = find (\<lambda>r. pr_id r = pk) (get_queryset st req)"

subsection \<open>Approve and reject (\<^verbatim>\<open>PurchaseRequestViewSet._handle_approval_action\<close>)\<close>

text \<open>
  The body of an approve or reject call as \<^verbatim>\<open>ApprovalActionSerializer\<close> sees its one field
  \<^verbatim>\<open>comments\<close> (optional, blank and null allowed): the key is \<open>Missing\<close>, is null
  (\<open>Valid None\<close>), holds text, or holds something a character field refuses.
\<close>

text \<open>
  \<^verbatim>\<open>ApprovalLevel.objects.filter(request_type=..., is_required=True).order_by('level_number')\<close>.
\<close>

definition required_approval_levels :: "state \<Rightarrow> PurchaseRequest \<Rightarrow> ApprovalLevel list" where
  "required_approval_levels st pr =
     sort_key level_number
       (filter (\<lambda>l. al_request_type l = request_type pr \<and> is_required l) (approval_levels st))"

text \<open>
  \<^verbatim>\<open>Approval.objects.filter(purchase_request=..., action='approved')
      .values_list('approval_level', flat=True).distinct().count()\<close>
\<close>

definition approved_levels_count :: "state \<Rightarrow> PurchaseRequest \<Rightarrow> nat" where
  "approved_levels_count st pr =
     length (remdups (map approval_level
       (filter (\<lambda>a. purchase_request_id a = Some (pr_id pr) \<and> action a = ''approved'')
               (approvals st))))"

text \<open>The loop over the ordered levels that stops at the first whose role is the caller's.\<close>

definition find_user_approval_level :: "ApprovalLevel list \<Rightarrow> UserProfile \<Rightarrow> ApprovalLevel option" where
  "find_user_approval_level levels p = find (\<lambda>level. approver_role level = role p) levels"

text \<open>
  The part inside \<^verbatim>\<open>transaction.atomic()\<close>. \<open>now\<close> is \<^verbatim>\<open>timezone.now()\<close> and \<open>new_id\<close> the
  fresh \<^verbatim>\<open>uuid4\<close> of the Approval. In a sequential run the locked re-read of the request
  returns the row \<open>get_object\<close> gave. An IntegrityError leaves the block by exception: the
  transaction rolls back and the call answers 500.
\<close>

definition record_decision ::
  "state \<Rightarrow> User \<Rightarrow> PurchaseRequest \<Rightarrow> ApprovalLevel \<Rightarrow> ApprovalLevel list \<Rightarrow> string
     \<Rightarrow> string option \<Rightarrow> nat \<Rightarrow> nat \<Rightarrow> state \<times> Response" where
  "record_decision st u purchase_request user_approval_level levels act cmts now new_id =
     (if status purchase_request \<noteq> ''pending''
      then (st, \<lparr>status_code = 400,
                 data = Error (''Request status has changed. Current status: ''
                               @ status purchase_request)\<rparr>)
      else
        case Approval_objects_create st
               \<lparr>ap_id = new_id, purchase_request_id = Some (pr_id purchase_request),
                approver = user_id u, approval_level = al_id user_approval_level,
                action = act, comments = cmts, ap_created_by = Some (user_id u),
                approved_at = None, rejected_at = None\<rparr> of
          Inl e \<Rightarrow> (st, \<lparr>status_code = 500, data = Error ''Server Error (500)''\<rparr>)
        | Inr st1 \<Rightarrow>
            let approval =
                  \<lparr>ap_id = new_id, purchase_request_id = Some (pr_id purchase_request),
                   approver = user_id u, approval_level = al_id user_approval_level,
                   action = act, comments = cmts, ap_created_by = Some (user_id u),
                   approved_at = (if act = ''approved'' then Some now else None),
                   rejected_at = (if act \<noteq> ''approved'' \<and> act = ''rejected''
                                  then Some now else None)\<rparr>;
                st2 = Approval_save st1 approval;
                st3 =
                  (if act = ''rejected''
                   then PurchaseRequest_save st2 (purchase_request\<lparr>status := ''rejected''\<rparr>)
                   else
                     let required_levels = length levels;
                         approved_levels = approved_levels_count st2 purchase_request
                     in if approved_levels \<ge> required_levels
                        then (PurchaseRequest_save st2
                                (purchase_request\<lparr>status := ''approved'',
                                                   approved_by := Some (user_id u)\<rparr>))
                             \<lparr>tasks := tasks st2
                                        @ [generate_purchase_order_task (pr_id purchase_request)]\<rparr>
                        else st2)
            in case find (\<lambda>r. pr_id r = pr_id purchase_request) (purchase_requests st3) of
                 Some refreshed \<Rightarrow> (st3, \<lparr>status_code = 200, data = Detail refreshed\<rparr>)
               | None \<Rightarrow> (st, \<lparr>status_code = 500, data = Error ''Server Error (500)''\<rparr>))"

definition handle_approval_action ::
  "state \<Rightarrow> request \<Rightarrow> nat \<Rightarrow> string \<Rightarrow> string option field \<Rightarrow> nat \<Rightarrow> nat \<Rightarrow> state \<times> Response" where
  "handle_approval_action st req pk act body_in now new_id =
     (case get_object st req pk of
        None \<Rightarrow> (st, \<lparr>status_code = 404, data = Error ''Not found.''\<rparr>)
      | Some purchase_request \<Rightarrow>
      (case user req of
        None \<Rightarrow> (st, \<lparr>status_code = 401, data = Error ''Not authenticated.''\<rparr>)
      | Some u \<Rightarrow>
        if \<not> is_superuser u \<and> profile u = None
        then (st, \<lparr>status_code = 400, data = Error ''User profile not found.''\<rparr>)
        else if status purchase_request \<noteq> ''pending''
        then (st, \<lparr>status_code = 400,
                   data = Error (''Cannot '' @ act
                                 @ '' request that is not in pending status.'')\<rparr>)
        else
          let levels = required_approval_levels st purchase_request in
          if levels = []
          then (st, \<lparr>status_code = 400,
                     data = Error ''No approval levels configured for this request type.''\<rparr>)
          else
            case (if is_superuser u then Some (last levels)
                  else case profile u of
                         None \<Rightarrow> None
                       | Some p \<Rightarrow> find_user_approval_level levels p) of
              None \<Rightarrow>
                (st, \<lparr>status_code = 403,
                      data = Error (''User role '' @ [CHR 0x27]
                                    @ (case profile u of Some p \<Rightarrow> role p | None \<Rightarrow> [])
                                    @ [CHR 0x27]
                                    @ '' is not authorized to approve this request type.'')\<rparr>)
            | Some user_approval_level \<Rightarrow>
                if \<exists>a \<in> set (approvals st).
                     purchase_request_id a = Some (pr_id purchase_request)
                     \<and> approval_level a = al_id user_approval_level
                     \<and> approver a = user_id u
                then (st, \<lparr>status_code = 400,
                           data = Error ''You have already provided approval for this request at this level.''\<rparr>)
                else
                  case body_in of
                    Invalid \<Rightarrow>
                      (st, \<lparr>status_code = 400,
                            data = FieldErrors [(''comments'', Refused)]\<rparr>)
                  | Missing \<Rightarrow>
                      record_decision st u purchase_request user_approval_level levels act
                        (Some []) now new_id
                  | Valid cmts \<Rightarrow>
                      record_decision st u purchase_request user_approval_level levels act
                        cmts now new_id))"

text \<open>
  The two routes, behind \<^verbatim>\<open>permission_classes=[IsAuthenticated, IsApprover]\<close>: a caller who
  is not authenticated is answered 401, one who is not an approver 403.
\<close>

definition guarded_approval ::
  "state \<Rightarrow> request \<Rightarrow> nat \<Rightarrow> string \<Rightarrow> string option field \<Rightarrow> nat \<Rightarrow> nat \<Rightarrow> state \<times> Response" where
  "guarded_approval st req pk act body_in now new_id =
     (if \<not> IsAuthenticated (user req)
      then (st, \<lparr>status_code = 401, data = Error ''Not authenticated.''\<rparr>)
      else if \<not> IsApprover (user req)
      then (st, \<lparr>status_code = 403, data = Error ''Permission denied.''\<rparr>)
      else handle_approval_action st req pk act body_in now new_id)"

definition approve ::
  "state \<Rightarrow> request \<Rightarrow> nat \<Rightarrow> string option field \<Rightarrow> nat \<Rightarrow> nat \<Rightarrow> state \<times> Response" where
  "approve st req pk body_in now new_id =
     guarded_approval st req pk ''approved'' body_in now new_id"

definition reject ::
  "state \<Rightarrow> request \<Rightarrow> nat \<Rightarrow> string option field \<Rightarrow> nat \<Rightarrow> nat \<Rightarrow> state \<times> Response" where
  "reject st req pk body_in now new_id =
     guarded_approval st req pk ''rejected'' body_in now new_id"

section \<open>Python values and the conversions the serializers call\<close>

text \<open>
  A parsed JSON value. A Python \<^verbatim>\<open>float\<close> is held by the finite decimal that \<^verbatim>\<open>str()\<close> prints
  for it, which is how the program reads one (\<^verbatim>\<open>Decimal(str(...))\<close>); the non-finite floats
  are outside this model. A \<^verbatim>\<open>dict\<close> is an association list with distinct keys.
\<close>

datatype pyval =
  PyNone
  | PyBool bool
  | PyInt int
  | PyFloat Decimal
  | PyStr string
  | PyList "pyval list"
  | PyDict "(string \<times> pyval) list"

datatype py_error = TypeError | ValueError | OverflowError | AttributeError

text \<open>
  What the model takes from the Python runtime instead of defining it: the JSON parser
  (\<open>None\<close> is \<^verbatim>\<open>json.JSONDecodeError\<close>), \<^verbatim>\<open>str()\<close> of a number or a container, and the
  conversions between text, integers and floats (\<open>None\<close> is \<^verbatim>\<open>ValueError\<close>, for
  \<open>float_of_int\<close> \<^verbatim>\<open>OverflowError\<close>).
\<close>

record python =
  json_loads :: "string \<Rightarrow> pyval option"
  repr_of :: "pyval \<Rightarrow> string"
  int_of_str :: "string \<Rightarrow> int option"
  int_of_float :: "Decimal \<Rightarrow> int"
  float_of_int :: "int \<Rightarrow> Decimal option"
  float_of_str :: "string \<Rightarrow> Decimal option"

definition py_str :: "python \<Rightarrow> pyval \<Rightarrow> string" where
  "py_str py v =
     (case v of
        PyStr s \<Rightarrow> s
      | PyNone \<Rightarrow> ''None''
      | PyBool b \<Rightarrow> (if b then ''True'' else ''False'')
      | _ \<Rightarrow> repr_of py v)"

definition py_int :: "python \<Rightarrow> pyval \<Rightarrow> py_error + int" where
  "py_int py v =
     (case v of
        PyInt n \<Rightarrow> Inr n
      | PyBool b \<Rightarrow> Inr (if b then 1 else 0)
      | PyFloat d \<Rightarrow> Inr (int_of_float py d)
      | PyStr s \<Rightarrow> (case int_of_str py s of Some n \<Rightarrow> Inr n | None \<Rightarrow> Inl ValueError)
      | _ \<Rightarrow> Inl TypeError)"

definition py_float :: "python \<Rightarrow> pyval \<Rightarrow> py_error + Decimal" where
  "py_float py v =
     (case v of
        PyFloat d \<Rightarrow> Inr d
      | PyInt n \<Rightarrow> (case float_of_int py n of Some d \<Rightarrow> Inr d | None \<Rightarrow> Inl OverflowError)
      | PyBool b \<Rightarrow> Inr \<lparr>coefficient = (if b then 10 else 0), exponent = - 1\<rparr>
      | PyStr s \<Rightarrow> (case float_of_str py s of Some d \<Rightarrow> Inr d | None \<Rightarrow> Inl ValueError)
      | _ \<Rightarrow> Inl TypeError)"

text \<open>\<^verbatim>\<open>d.get(key, default)\<close>\<close>

definition dict_get :: "(string \<times> pyval) list \<Rightarrow> string \<Rightarrow> pyval \<Rightarrow> pyval" where
  "dict_get d key dflt = (case map_of d key of Some v \<Rightarrow> v | None \<Rightarrow> dflt)"

subsection \<open>Text\<close>

text \<open>
  A \<open>char\<close> is a code point below 256. \<^verbatim>\<open>str.strip()\<close> removes the white space of that
  range from both ends; \<^verbatim>\<open>str.lower()\<close> maps \<open>A\<close> to \<open>Z\<close> and the capital letters of
  Latin-1 to their small letters; \<^verbatim>\<open>s.split(sep)\<close> cuts at every separator and always
  returns at least one piece.
\<close>

definition isspace :: "char \<Rightarrow> bool" where
  "isspace c \<longleftrightarrow> (of_char c :: nat) \<in> set [9, 10, 11, 12, 13, 28, 29, 30, 31, 32, 133, 160]"

definition strip :: "string \<Rightarrow> string" where
  "strip s = rev (dropWhile isspace (rev (dropWhile isspace s)))"

definition lower_char :: "char \<Rightarrow> char" where
  "lower_char c =
     (let n = (of_char c :: nat)
      in if (65 \<le> n \<and> n \<le> 90) \<or> (192 \<le> n \<and> n \<le> 222 \<and> n \<noteq> 215)
         then char_of (n + 32) else c)"

definition lower :: "string \<Rightarrow> string" where
  "lower s = map lower_char s"

fun str_split :: "char \<Rightarrow> string \<Rightarrow> string list" where
  "str_split sep [] = [[]]"
| "str_split sep (c # cs) =
     (if c = sep then [] # str_split sep cs
      else (case str_split sep cs of
              w # ws \<Rightarrow> (c # w) # ws
            | [] \<Rightarrow> [[c]]))"

subsection \<open>Decimal arithmetic\<close>

text \<open>
  Multiplication in the default context of \<^verbatim>\<open>decimal\<close>: the exact product, rounded
  half-even to 28 significant digits when its coefficient has more. The exponent limits
  of the context and the sign of a zero are not modelled.
\<close>

function ndigits :: "int \<Rightarrow> nat" where
  "ndigits n = (if n < 10 then 1 else Suc (ndigits (n div 10)))"
  by pat_completeness auto
termination
  by (relation "measure nat") auto

declare ndigits.simps [simp del]

definition context_prec :: nat where
  "context_prec = 28"

definition round_half_even :: "int \<Rightarrow> int \<Rightarrow> int" where
  "round_half_even n p =
     (let q = n div p; r = n mod p
      in if 2 * r > p \<or> (2 * r = p \<and> odd q) then q + 1 else q)"

definition context_round :: "Decimal \<Rightarrow> Decimal" where
  "context_round d =
     (let n = \<bar>coefficient d\<bar>
      in if ndigits n \<le> context_prec then d
         else
           let shift = ndigits n - context_prec;
               q = round_half_even n (10 ^ shift)
           in if q = 10 ^ context_prec
              then \<lparr>coefficient = sgn (coefficient d) * 10 ^ (context_prec - 1),
                    exponent = exponent d + int shift + 1\<rparr>
              else \<lparr>coefficient = sgn (coefficient d) * q,
                    exponent = exponent d + int shift\<rparr>)"

definition Decimal_mul :: "Decimal \<Rightarrow> Decimal \<Rightarrow> Decimal" where
  "Decimal_mul a b =
     context_round \<lparr>coefficient = coefficient a * coefficient b,
                    exponent = exponent a + exponent b\<rparr>"

text \<open>\<^verbatim>\<open>Decimal(str(n))\<close> for an integer \<open>n\<close>.\<close>

definition Decimal_of_int :: "int \<Rightarrow> Decimal" where
  "Decimal_of_int n = \<lparr>coefficient = n, exponent = 0\<rparr>"

subsection \<open>Floats\<close>

text \<open>
  A finite Python \<^verbatim>\<open>float\<close> is an IEEE 754 binary64 number: an integer significand of at
  most 53 bits (carrying the sign) and a binary exponent, with value
  \<open>significand * 2 ^ exponent2\<close>. Every operation returns the representable number nearest
  to the exact result, ties to the even significand. The limits of the exponent range
  (overflow to infinity, subnormal numbers) are not modelled.
\<close>

record binary64 =
  significand :: int
  exponent2 :: int

function bitlen :: "int \<Rightarrow> nat" where
  "bitlen n = (if n \<le> 0 then 0 else Suc (bitlen (n div 2)))"
  by pat_completeness auto
termination
  by (relation "measure nat") auto

declare bitlen.simps [simp del]

text \<open>\<open>ge_scaled n d e\<close> is \<open>n / d \<ge> 2 ^ e\<close> for positive \<open>d\<close>, in integers.\<close>

definition ge_scaled :: "int \<Rightarrow> int \<Rightarrow> int \<Rightarrow> bool" where
  "ge_scaled n d e \<longleftrightarrow> (if e \<ge> 0 then n \<ge> d * 2 ^ nat e else n * 2 ^ nat (- e) \<ge> d)"

text \<open>
  The binary64 number nearest to the fraction \<open>n / d\<close> (\<open>n \<ge> 0\<close>, \<open>d > 0\<close>): with \<open>e\<close> the
  binary order of magnitude of the fraction, the significand is the fraction divided by
  \<open>2 ^ (e - 52)\<close> and rounded half-even.
\<close>

definition round_binary64 :: "int \<Rightarrow> int \<Rightarrow> binary64" where
  "round_binary64 n d =
     (if n = 0 then \<lparr>significand = 0, exponent2 = 0\<rparr>
      else
        let e0 = int (bitlen n) - int (bitlen d);
            e = (if ge_scaled n d e0 then e0 else e0 - 1);
            sh = 52 - e;
            m = (if sh \<ge> 0 then round_half_even (n * 2 ^ nat sh) d
                 else round_half_even n (d * 2 ^ nat (- sh)))
        in if m = 2 ^ 53 then \<lparr>significand = 2 ^ 52, exponent2 = e - 51\<rparr>
           else \<lparr>significand = m, exponent2 = e - 52\<rparr>)"

definition with_sign :: "int \<Rightarrow> binary64 \<Rightarrow> binary64" where
  "with_sign s x = (if s < 0 then x\<lparr>significand := - significand x\<rparr> else x)"

text \<open>\<^verbatim>\<open>float(d)\<close> for a Decimal, and the float a decimal literal denotes.\<close>

definition float_of_Decimal :: "Decimal \<Rightarrow> binary64" where
  "float_of_Decimal d =
     with_sign (coefficient d)
       (if exponent d \<ge> 0
        then round_binary64 (\<bar>coefficient d\<bar> * 10 ^ nat (exponent d)) 1
        else round_binary64 \<bar>coefficient d\<bar> (10 ^ nat (- exponent d)))"

text \<open>\<^verbatim>\<open>a - b\<close>, \<^verbatim>\<open>abs(a)\<close> and \<^verbatim>\<open>a > b\<close> on floats.\<close>

definition float_sub :: "binary64 \<Rightarrow> binary64 \<Rightarrow> binary64" where
  "float_sub a b =
     (let m0 = min (exponent2 a) (exponent2 b);
          i = significand a * 2 ^ nat (exponent2 a - m0)
              - significand b * 2 ^ nat (exponent2 b - m0)
      in with_sign i
           (if m0 \<ge> 0 then round_binary64 (\<bar>i\<bar> * 2 ^ nat m0) 1
            else round_binary64 \<bar>i\<bar> (2 ^ nat (- m0))))"

definition float_abs :: "binary64 \<Rightarrow> binary64" where
  "float_abs a = a\<lparr>significand := \<bar>significand a\<bar>\<rparr>"

definition float_greater :: "binary64 \<Rightarrow> binary64 \<Rightarrow> bool" where
  "float_greater a b =
     (let m0 = min (exponent2 a) (exponent2 b)
      in significand a * 2 ^ nat (exponent2 a - m0)
           > significand b * 2 ^ nat (exponent2 b - m0))"

section \<open>Request items (\<^verbatim>\<open>RequestItem\<close>)\<close>

subsection \<open>Writing the decimal columns\<close>

text \<open>
  \<^verbatim>\<open>unit_price\<close> and \<^verbatim>\<open>total_price\<close> are \<^verbatim>\<open>DecimalField(max_digits=10, decimal_places=2)\<close>.
  When a row is written, the field first turns the attribute into a Decimal
  (\<^verbatim>\<open>to_python\<close>): a Decimal is taken as it is, a float goes through
  \<^verbatim>\<open>create_decimal_from_float\<close> in a context of \<^verbatim>\<open>max_digits\<close> significant digits, which is
  the exact binary value of the float rounded half-even to ten significant digits.
\<close>

text \<open>\<open>ge_scaled10 n d k\<close> is \<open>n / d \<ge> 10 ^ k\<close> for positive \<open>d\<close>, in integers.\<close>

definition ge_scaled10 :: "int \<Rightarrow> int \<Rightarrow> int \<Rightarrow> bool" where
  "ge_scaled10 n d k \<longleftrightarrow> (if k \<ge> 0 then n \<ge> d * 10 ^ nat k else n * 10 ^ nat (- k) \<ge> d)"

text \<open>
  The decimal of ten significant digits nearest to the fraction \<open>n / d\<close> (\<open>n \<ge> 0\<close>,
  \<open>d > 0\<close>), ties to the even coefficient; \<open>k\<close> is the decimal order of magnitude of the
  fraction.
\<close>

definition round_ten_digits :: "int \<Rightarrow> int \<Rightarrow> Decimal" where
  "round_ten_digits n d =
     (if n = 0 then \<lparr>coefficient = 0, exponent = 0\<rparr>
      else
        let k0 = int (ndigits n) - int (ndigits d);
            k = (if ge_scaled10 n d k0 then k0 else k0 - 1);
            sh = 9 - k;
            c = (if sh \<ge> 0 then round_half_even (n * 10 ^ nat sh) d
                 else round_half_even n (d * 10 ^ nat (- sh)))
        in if c = 10 ^ 10 then \<lparr>coefficient = 10 ^ 9, exponent = k - 8\<rparr>
           else \<lparr>coefficient = c, exponent = k - 9\<rparr>)"

definition create_decimal_from_float :: "binary64 \<Rightarrow> Decimal" where
  "create_decimal_from_float x =
     (let r = (if exponent2 x \<ge> 0
               then round_ten_digits (\<bar>significand x\<bar> * 2 ^ nat (exponent2 x)) 1
               else round_ten_digits \<bar>significand x\<bar> (2 ^ nat (- exponent2 x)))
      in if significand x < 0 then r\<lparr>coefficient := - coefficient r\<rparr> else r)"

definition to_python :: "number \<Rightarrow> Decimal" where
  "to_python v =
     (case v of
        DecimalNumber d \<Rightarrow> d
      | FloatNumber d \<Rightarrow> create_decimal_from_float (float_of_Decimal d))"

text \<open>
  The backend then stores two decimal places. SQLite receives the text of Django's
  \<^verbatim>\<open>quantize\<close> to two places in a context of ten digits (ties to even); PostgreSQL
  receives the Decimal and rounds it into its \<^verbatim>\<open>numeric(10, 2)\<close> column (ties away from
  zero). Either way a value that needs more than ten digits after rounding is refused.
\<close>

definition round_half_up :: "int \<Rightarrow> int \<Rightarrow> int" where
  "round_half_up n p = (let q = n div p; r = n mod p in if 2 * r \<ge> p then q + 1 else q)"

definition quantize_places :: "backend \<Rightarrow> Decimal \<Rightarrow> Decimal" where
  "quantize_places b d =
     (if exponent d \<ge> - 2
      then \<lparr>coefficient = coefficient d * 10 ^ nat (exponent d + 2), exponent = - 2\<rparr>
      else
        let p = 10 ^ nat (- 2 - exponent d);
            q = (case b of
                   SQLite \<Rightarrow> round_half_even \<bar>coefficient d\<bar> p
                 | PostgreSQL \<Rightarrow> round_half_up \<bar>coefficient d\<bar> p)
        in \<lparr>coefficient = sgn (coefficient d) * q, exponent = - 2\<rparr>)"

definition adapt_decimalfield_value :: "backend \<Rightarrow> Decimal \<Rightarrow> db_error + Decimal" where
  "adapt_decimalfield_value b d =
     (let r = quantize_places b d
      in if \<bar>coefficient r\<bar> \<ge> 10 ^ 10 then Inl DataError else Inr r)"

subsection \<open>Saving\<close>

text \<open>
  \<^verbatim>\<open>super().save()\<close>: the row is written with the field values of the instance, each in
  the form its column holds. The foreign key to the purchase request must point to a
  row; \<^verbatim>\<open>quantity\<close> is a \<^verbatim>\<open>PositiveIntegerField\<close>, whose column refuses a negative number
  and a number beyond the integer range of the backend; PostgreSQL also refuses a
  description longer than the declared 200 characters; \<^verbatim>\<open>total_price\<close> is not nullable.
  An instance without a key is inserted under the next number of the sequence; one with
  a key replaces the row of that key, or is inserted if there is none. The result is the
  new state and the row as written.
\<close>

definition Model_save_item :: "state \<Rightarrow> RequestItem \<Rightarrow> db_error + state \<times> RequestItem" where
  "Model_save_item st item =
     (if ri_purchase_request item \<notin> set (map pr_id (purchase_requests st))
      then Inl IntegrityError
      else if quantity item < 0 then Inl IntegrityError
      else if (case backend st of
                 PostgreSQL \<Rightarrow> quantity item > 2147483647
                                \<or> length (ri_description item) > 200
               | SQLite \<Rightarrow> quantity item > 9223372036854775807)
      then Inl DataError
      else
        case adapt_decimalfield_value (backend st) (to_python (unit_price item)) of
          Inl e \<Rightarrow> Inl e
        | Inr stored_unit_price \<Rightarrow>
            (case total_price item of
               None \<Rightarrow> Inl IntegrityError
             | Some t \<Rightarrow>
                 (case adapt_decimalfield_value (backend st) t of
                    Inl e \<Rightarrow> Inl e
                  | Inr stored_total_price \<Rightarrow>
                      let written = item\<lparr>unit_price := DecimalNumber stored_unit_price,
                                         total_price := Some stored_total_price\<rparr>
                      in case ri_id item of
                           None \<Rightarrow>
                             let row = written\<lparr>ri_id := Some (item_seq st)\<rparr>
                             in Inr (st\<lparr>request_items := request_items st @ [row],
                                         item_seq := Suc (item_seq st)\<rparr>, row)
                         | Some k \<Rightarrow>
                             if Some k \<in> set (map ri_id (request_items st))
                             then Inr (st\<lparr>request_items :=
                                            map (\<lambda>r. if ri_id r = Some k then written else r)
                                                (request_items st)\<rparr>,
                                       written)
                             else Inr (st\<lparr>request_items := request_items st @ [written]\<rparr>,
                                       written))))"

text \<open>
  \<^verbatim>\<open>Decimal(str(self.unit_price))\<close>: a Decimal prints and parses back to itself, text is
  read as the Decimal it spells, and a float gives the decimal that \<^verbatim>\<open>str()\<close> prints.
\<close>

definition Decimal_of_str :: "number \<Rightarrow> Decimal" where
  "Decimal_of_str v = (case v of DecimalNumber d \<Rightarrow> d | FloatNumber d \<Rightarrow> d)"

text \<open>\<^verbatim>\<open>RequestItem.save\<close>\<close>

definition RequestItem_save :: "state \<Rightarrow> RequestItem \<Rightarrow> db_error + state \<times> RequestItem" where
  "RequestItem_save st self =
     (let quantity' = Decimal_of_int (quantity self);
          unit_price' = Decimal_of_str (unit_price self)
      in Model_save_item st (self\<lparr>total_price := Some (Decimal_mul quantity' unit_price')\<rparr>))"

text \<open>
  \<^verbatim>\<open>RequestItem.objects.create(purchase_request=..., description=..., quantity=...,
  unit_price=...)\<close>: a new instance, then \<^verbatim>\<open>save()\<close>.
\<close>

definition RequestItem_objects_create ::
  "state \<Rightarrow> nat \<Rightarrow> string \<Rightarrow> int \<Rightarrow> number \<Rightarrow> db_error + state \<times> RequestItem" where
  "RequestItem_objects_create st pid descr qty price =
     RequestItem_save st
       \<lparr>ri_id = None, ri_purchase_request = pid, ri_description = descr,
        quantity = qty, unit_price = price, total_price = None\<rparr>"

text \<open>\<^verbatim>\<open>a == b\<close> on Decimals: equality of the values.\<close>

definition Decimal_eq :: "Decimal \<Rightarrow> Decimal \<Rightarrow> bool" where
  "Decimal_eq a b \<longleftrightarrow>
     (let m = min (exponent a) (exponent b)
      in coefficient a * 10 ^ nat (exponent a - m) = coefficient b * 10 ^ nat (exponent b - m))"

section \<open>Serializers (\<^verbatim>\<open>procurement/serializers.py\<close>)\<close>

subsection \<open>Upload settings and file validation\<close>

record settings =
  MAX_UPLOAD_SIZE :: int
  ALLOWED_FILE_TYPES :: "string list"

text \<open>The settings when the environment sets neither variable.\<close>

definition default_settings :: settings where
  "default_settings =
     \<lparr>MAX_UPLOAD_SIZE = 10485760,
      ALLOWED_FILE_TYPES = [''pdf'', ''jpg'', ''jpeg'', ''png'']\<rparr>"

text \<open>\<^verbatim>\<open>value.name.split('.')[-1].lower()\<close>\<close>

definition file_ext :: "string \<Rightarrow> string" where
  "file_ext name = lower (last (str_split (CHR ''.'') name))"

text \<open>
  \<^verbatim>\<open>validate_proforma\<close>, the same body as \<^verbatim>\<open>validate_receipt\<close>. A file object is true
  exactly when its name is not empty, so \<^verbatim>\<open>if value:\<close> skips both null and a nameless
  file.
\<close>

definition validate_proforma ::
  "settings \<Rightarrow> UploadedFile option \<Rightarrow> validation_error + UploadedFile option" where
  "validate_proforma cfg v =
     (case v of
        None \<Rightarrow> Inr v
      | Some f \<Rightarrow>
          if file_name f = [] then Inr v
          else if int (file_size f) > MAX_UPLOAD_SIZE cfg
          then Inl (FileSizeExceeds (MAX_UPLOAD_SIZE cfg))
          else if file_ext (file_name f) \<notin> set (ALLOWED_FILE_TYPES cfg)
          then Inl (FileTypeNotAllowed (ALLOWED_FILE_TYPES cfg))
          else Inr v)"

subsection \<open>The items field\<close>

text \<open>\<^verbatim>\<open>ItemsField.to_internal_value\<close>\<close>

definition ItemsField_to_internal_value :: "python \<Rightarrow> pyval \<Rightarrow> validation_error + pyval list" where
  "ItemsField_to_internal_value py v =
     (case v of
        PyStr s \<Rightarrow>
          (case json_loads py s of
             None \<Rightarrow> Inl InvalidItemsJSON
           | Some parsed \<Rightarrow> Inr (case parsed of PyList l \<Rightarrow> l | _ \<Rightarrow> []))
      | PyList l \<Rightarrow> Inr l
      | _ \<Rightarrow> Inr [])"

subsection \<open>Request data and validated data\<close>

text \<open>
  The body of a create or update call, field by field as the serializers declare them
  (\<^verbatim>\<open>title\<close>, \<^verbatim>\<open>description\<close>, \<^verbatim>\<open>amount\<close>, \<^verbatim>\<open>request_type_id\<close>, \<^verbatim>\<open>proforma\<close>, \<^verbatim>\<open>items\<close>). The
  items value is raw: \<open>None\<close> when the key is absent, else the value sent.
\<close>

record request_data =
  d_title :: "string field"
  d_description :: "string field"
  d_amount :: "Decimal field"
  d_request_type_id :: "nat field"
  d_proforma :: "UploadedFile option field"
  d_items :: "pyval option"

text \<open>\<^verbatim>\<open>validated_data\<close>: a key that is absent from the dictionary is \<open>None\<close>.\<close>

record validated_data =
  v_title :: "string option"
  v_description :: "string option"
  v_amount :: "Decimal option"
  v_request_type_id :: "nat option"
  v_proforma :: "UploadedFile option option"
  v_items :: "pyval list option"

definition required_field :: "string \<Rightarrow> 'a field \<Rightarrow> (string \<times> validation_error) list" where
  "required_field name f =
     (case f of Missing \<Rightarrow> [(name, Required)] | Invalid \<Rightarrow> [(name, Refused)] | Valid v \<Rightarrow> [])"

definition optional_field :: "string \<Rightarrow> 'a field \<Rightarrow> (string \<times> validation_error) list" where
  "optional_field name f =
     (case f of Missing \<Rightarrow> [] | Invalid \<Rightarrow> [(name, Refused)] | Valid v \<Rightarrow> [])"

definition field_value :: "'a field \<Rightarrow> 'a option" where
  "field_value f = (case f of Valid v \<Rightarrow> Some v | _ \<Rightarrow> None)"

text \<open>
  The declared field \<^verbatim>\<open>items = ItemsField(required=False, allow_null=True)\<close> as the
  framework runs it: skipped when the key is absent, null kept without conversion, else
  \<open>ItemsField_to_internal_value\<close>. The result is the error list and the validated value.
\<close>

definition run_items_field ::
  "python \<Rightarrow> pyval option \<Rightarrow> (string \<times> validation_error) list \<times> pyval list option" where
  "run_items_field py raw =
     (case raw of
        None \<Rightarrow> ([], None)
      | Some PyNone \<Rightarrow> ([], None)
      | Some v \<Rightarrow>
          (case ItemsField_to_internal_value py v of
             Inl e \<Rightarrow> ([(''items'', e)], None)
           | Inr l \<Rightarrow> ([], Some l)))"

subsection \<open>\<^verbatim>\<open>PurchaseRequestCreateSerializer\<close>\<close>

text \<open>
  The override of \<^verbatim>\<open>to_internal_value\<close>, before the framework sees the data: the items
  value is parsed by a fresh \<^verbatim>\<open>ItemsField\<close>, any exception makes it the empty list, and
  an absent key becomes the empty list too.
\<close>

definition Create_coerce_items :: "python \<Rightarrow> request_data \<Rightarrow> request_data" where
  "Create_coerce_items py rdata =
     (case d_items rdata of
        Some items_value \<Rightarrow>
          (case ItemsField_to_internal_value py items_value of
             Inr parsed_items \<Rightarrow> rdata\<lparr>d_items := Some (PyList parsed_items)\<rparr>
           | Inl e \<Rightarrow> rdata\<lparr>d_items := Some (PyList [])\<rparr>)
      | None \<Rightarrow> rdata\<lparr>d_items := Some (PyList [])\<rparr>)"

definition validate_request_type_id :: "state \<Rightarrow> nat \<Rightarrow> validation_error + nat" where
  "validate_request_type_id st v =
     (if \<exists>rt \<in> set (request_types st). rt_id rt = v \<and> rt_is_active rt
      then Inr v else Inl RequestTypeNotActive)"

text \<open>
  \<^verbatim>\<open>serializer.is_valid()\<close>: the override, then every declared field in turn with its
  \<^verbatim>\<open>validate_<field>\<close> method; all field errors are collected.
\<close>

definition Create_is_valid ::
  "python \<Rightarrow> settings \<Rightarrow> state \<Rightarrow> request_data
     \<Rightarrow> (string \<times> validation_error) list + validated_data" where
  "Create_is_valid py cfg st rdata0 =
     (let rdata = Create_coerce_items py rdata0;
          items = run_items_field py (d_items rdata);
          errors =
            required_field ''title'' (d_title rdata)
            @ required_field ''description'' (d_description rdata)
            @ required_field ''amount'' (d_amount rdata)
            @ (case d_request_type_id rdata of
                 Valid v \<Rightarrow>
                   (case validate_request_type_id st v of
                      Inl e \<Rightarrow> [(''request_type_id'', e)]
                    | Inr v' \<Rightarrow> [])
               | f \<Rightarrow> required_field ''request_type_id'' f)
            @ (case d_proforma rdata of
                 Valid v \<Rightarrow>
                   (case validate_proforma cfg v of
                      Inl e \<Rightarrow> [(''proforma'', e)]
                    | Inr v' \<Rightarrow> [])
               | f \<Rightarrow> optional_field ''proforma'' f)
            @ fst items
      in if errors \<noteq> [] then Inl errors
         else Inr \<lparr>v_title = field_value (d_title rdata),
                   v_description = field_value (d_description rdata),
                   v_amount = field_value (d_amount rdata),
                   v_request_type_id = field_value (d_request_type_id rdata),
                   v_proforma = field_value (d_proforma rdata),
                   v_items = snd items\<rparr>)"

text \<open>One round of the loop over \<^verbatim>\<open>items_data\<close> in \<^verbatim>\<open>create\<close>; an exception leaves the state.\<close>

definition create_item :: "python \<Rightarrow> state \<Rightarrow> nat \<Rightarrow> pyval \<Rightarrow> state" where
  "create_item py st pid item_data =
     (case item_data of
        PyDict d \<Rightarrow>
          (let descr = strip (py_str py (dict_get d ''description'' (PyStr [])))
           in case py_int py (dict_get d ''quantity'' (PyInt 1)) of
                Inl e \<Rightarrow> st
              | Inr qty \<Rightarrow>
                  (case py_float py (dict_get d ''unit_price'' (PyInt 0)) of
                     Inl e \<Rightarrow> st
                   | Inr price \<Rightarrow>
                       if descr \<noteq> []
                       then (case RequestItem_objects_create st pid descr qty (FloatNumber price) of
                               Inl e \<Rightarrow> st
                             | Inr (st', item) \<Rightarrow> st')
                       else st))
      | _ \<Rightarrow> st)"

fun create_items :: "python \<Rightarrow> state \<Rightarrow> nat \<Rightarrow> pyval list \<Rightarrow> state" where
  "create_items py st pid [] = st"
| "create_items py st pid (item_data # rest) =
     create_items py (create_item py st pid item_data) pid rest"

text \<open>
  \<^verbatim>\<open>PurchaseRequestCreateSerializer.create\<close>; \<open>new_id\<close> is the \<^verbatim>\<open>uuid4\<close> of the new request.
  The result is the state and the instance in memory.
\<close>

definition Create_create ::
  "python \<Rightarrow> state \<Rightarrow> User \<Rightarrow> validated_data \<Rightarrow> nat \<Rightarrow> db_error + state \<times> PurchaseRequest" where
  "Create_create py st u validated new_id =
     (let items_data = (case v_items validated of Some l \<Rightarrow> l | None \<Rightarrow> [])
      in case (v_title validated, v_description validated, v_amount validated,
               v_request_type_id validated) of
           (Some t, Some d, Some a, Some request_type_id) \<Rightarrow>
             if request_type_id \<notin> set (map rt_id (request_types st))
             then Inl DoesNotExist
             else if new_id \<in> set (map pr_id (purchase_requests st))
             then Inl IntegrityError
             else
               let purchase_request =
                     \<lparr>pr_id = new_id, title = t, description = d, amount = a,
                      status = ''pending'', request_type = request_type_id,
                      created_by = user_id u, approved_by = None,
                      proforma = (case v_proforma validated of Some f \<Rightarrow> f | None \<Rightarrow> None),
                      submitted_at = None\<rparr>;
                   st1 = st\<lparr>purchase_requests := purchase_requests st @ [purchase_request]\<rparr>
               in if items_data \<noteq> [] \<and> length items_data > 0
                  then Inr (create_items py st1 new_id items_data, purchase_request)
                  else Inr (st1, purchase_request)
         | _ \<Rightarrow> Inl IntegrityError)"

subsection \<open>\<^verbatim>\<open>PurchaseRequestUpdateSerializer\<close>\<close>

definition Update_coerce_items :: "python \<Rightarrow> request_data \<Rightarrow> request_data" where
  "Update_coerce_items py rdata =
     (case d_items rdata of
        Some items_value \<Rightarrow>
          (case ItemsField_to_internal_value py items_value of
             Inr parsed_items \<Rightarrow> rdata\<lparr>d_items := Some (PyList parsed_items)\<rparr>
           | Inl e \<Rightarrow> rdata\<lparr>d_items := Some (PyList [])\<rparr>)
      | None \<Rightarrow> rdata)"

text \<open>
  \<^verbatim>\<open>is_valid()\<close> of the update serializer, which the view builds without \<^verbatim>\<open>partial\<close>: the
  field errors first; only when there are none, \<^verbatim>\<open>validate\<close> runs and refuses an instance
  that is not pending. This serializer has no \<^verbatim>\<open>validate_<field>\<close> method.
\<close>

definition Update_is_valid ::
  "python \<Rightarrow> PurchaseRequest \<Rightarrow> request_data
     \<Rightarrow> (string \<times> validation_error) list + validated_data" where
  "Update_is_valid py instance rdata0 =
     (let rdata = Update_coerce_items py rdata0;
          items = run_items_field py (d_items rdata);
          errors =
            required_field ''title'' (d_title rdata)
            @ required_field ''description'' (d_description rdata)
            @ required_field ''amount'' (d_amount rdata)
            @ optional_field ''request_type_id'' (d_request_type_id rdata)
            @ optional_field ''proforma'' (d_proforma rdata)
            @ fst items
      in if errors \<noteq> [] then Inl errors
         else if \<not> can_be_edited instance then Inl [(''non_field_errors'', NotPending)]
         else Inr \<lparr>v_title = field_value (d_title rdata),
                   v_description = field_value (d_description rdata),
                   v_amount = field_value (d_amount rdata),
                   v_request_type_id = field_value (d_request_type_id rdata),
                   v_proforma = field_value (d_proforma rdata),
                   v_items = snd items\<rparr>)"

text \<open>The body of one round of the loop over \<^verbatim>\<open>items_data\<close> in \<^verbatim>\<open>update\<close>, for a dict.\<close>

definition update_item_from_dict ::
  "python \<Rightarrow> state \<Rightarrow> nat \<Rightarrow> (string \<times> pyval) list \<Rightarrow> state" where
  "update_item_from_dict py st pid d =
     (let descr = py_str py (dict_get d ''description'' (PyStr []))
      in case py_int py (dict_get d ''quantity'' (PyInt 1)) of
           Inl e \<Rightarrow> st
         | Inr qty \<Rightarrow>
             (case py_float py (dict_get d ''unit_price'' (PyInt 0)) of
                Inl e \<Rightarrow> st
              | Inr price \<Rightarrow>
                  (case RequestItem_objects_create st pid descr qty (FloatNumber price) of
                     Inl e \<Rightarrow> st
                   | Inr (st', item) \<Rightarrow> st')))"

text \<open>
  One round: a dict is used directly, a string is parsed as JSON first (a parse error, or
  a parsed value without \<^verbatim>\<open>get\<close>, is an exception and skips the item), anything else is
  passed over.
\<close>

definition update_item :: "python \<Rightarrow> state \<Rightarrow> nat \<Rightarrow> pyval \<Rightarrow> state" where
  "update_item py st pid item_data =
     (case item_data of
        PyDict d \<Rightarrow> update_item_from_dict py st pid d
      | PyStr s \<Rightarrow>
          (case json_loads py s of
             Some (PyDict item_dict) \<Rightarrow> update_item_from_dict py st pid item_dict
           | _ \<Rightarrow> st)
      | _ \<Rightarrow> st)"

fun update_items :: "python \<Rightarrow> state \<Rightarrow> nat \<Rightarrow> pyval list \<Rightarrow> state" where
  "update_items py st pid [] = st"
| "update_items py st pid (item_data # rest) =
     update_items py (update_item py st pid item_data) pid rest"

text \<open>\<^verbatim>\<open>PurchaseRequestUpdateSerializer.update\<close>\<close>

definition Update_update ::
  "python \<Rightarrow> state \<Rightarrow> PurchaseRequest \<Rightarrow> validated_data \<Rightarrow> validation_error + state" where
  "Update_update py st instance validated =
     (case (case v_request_type_id validated of
              None \<Rightarrow> Inr instance
            | Some request_type_id \<Rightarrow>
                if \<exists>rt \<in> set (request_types st). rt_id rt = request_type_id \<and> rt_is_active rt
                then Inr (instance\<lparr>request_type := request_type_id\<rparr>)
                else Inl RequestTypeNotActive) of
        Inl e \<Rightarrow> Inl e
      | Inr instance1 \<Rightarrow>
          let instance2 =
                instance1\<lparr>title := (case v_title validated of Some t \<Rightarrow> t
                                       | None \<Rightarrow> title instance1),
                          description := (case v_description validated of Some d \<Rightarrow> d
                                          | None \<Rightarrow> description instance1),
                          amount := (case v_amount validated of Some a \<Rightarrow> a
                                     | None \<Rightarrow> amount instance1),
                          proforma := (case v_proforma validated of Some f \<Rightarrow> f
                                       | None \<Rightarrow> proforma instance1)\<rparr>;
              st1 = PurchaseRequest_save st instance2
          in case v_items validated of
               None \<Rightarrow> Inr st1
             | Some items_data \<Rightarrow>
                 Inr (update_items py
                        (st1\<lparr>request_items :=
                               filter (\<lambda>i. ri_purchase_request i \<noteq> pr_id instance)
                                      (request_items st1)\<rparr>)
                        (pr_id instance) items_data))"

section \<open>Create and update views (\<^verbatim>\<open>PurchaseRequestViewSet\<close>)\<close>

definition file_is_set :: "UploadedFile option \<Rightarrow> bool" where
  "file_is_set v = (case v of None \<Rightarrow> False | Some f \<Rightarrow> file_name f \<noteq> [])"

definition create_view ::
  "python \<Rightarrow> settings \<Rightarrow> state \<Rightarrow> request \<Rightarrow> request_data \<Rightarrow> nat \<Rightarrow> nat \<Rightarrow> state \<times> Response" where
  "create_view py cfg st req rdata now new_id =
     (case user req of
        None \<Rightarrow> (st, \<lparr>status_code = 401, data = Error ''Not authenticated.''\<rparr>)
      | Some u \<Rightarrow>
          if \<not> is_authenticated u
          then (st, \<lparr>status_code = 401, data = Error ''Not authenticated.''\<rparr>)
          else if \<not> is_superuser u \<and> profile u = None
          then (st, \<lparr>status_code = 400, data = Error ''User profile not found.''\<rparr>)
          else if \<not> is_superuser u \<and> map_option role (profile u) \<noteq> Some ''staff''
          then (st, \<lparr>status_code = 403,
                     data = Error ''Only staff can create purchase requests.''\<rparr>)
          else
            case Create_is_valid py cfg st rdata of
              Inl errors \<Rightarrow> (st, \<lparr>status_code = 400, data = FieldErrors errors\<rparr>)
            | Inr validated \<Rightarrow>
                (case Create_create py st u validated new_id of
                   Inl e \<Rightarrow> (st, \<lparr>status_code = 500, data = Error ''Server Error (500)''\<rparr>)
                 | Inr (st1, created) \<Rightarrow>
                     let purchase_request = created\<lparr>submitted_at := Some now\<rparr>;
                         st2 = PurchaseRequest_save st1 purchase_request;
                         st3 = (if file_is_set (proforma purchase_request)
                                then st2\<lparr>tasks := tasks st2
                                                 @ [process_proforma (pr_id purchase_request)]\<rparr>
                                else st2)
                     in (st3, \<lparr>status_code = 201, data = Detail purchase_request\<rparr>)))"

text \<open>
  \<^verbatim>\<open>PurchaseRequestViewSet.update\<close>, which \<^verbatim>\<open>partial_update\<close> calls unchanged. The
  view-level permission is \<^verbatim>\<open>IsAuthenticated\<close>.
\<close>

definition update_view ::
  "python \<Rightarrow> state \<Rightarrow> request \<Rightarrow> nat \<Rightarrow> request_data \<Rightarrow> state \<times> Response" where
  "update_view py st req pk rdata =
     (case user req of
        None \<Rightarrow> (st, \<lparr>status_code = 401, data = Error ''Not authenticated.''\<rparr>)
      | Some u \<Rightarrow>
          if \<not> is_authenticated u
          then (st, \<lparr>status_code = 401, data = Error ''Not authenticated.''\<rparr>)
          else
            case get_object st req pk of
              None \<Rightarrow> (st, \<lparr>status_code = 404, data = Error ''Not found.''\<rparr>)
            | Some instance \<Rightarrow>
                if \<not> is_superuser u \<and> created_by instance \<noteq> user_id u
                then (st, \<lparr>status_code = 403,
                           data = Error ''You can only update your own requests.''\<rparr>)
                else if \<not> is_superuser u \<and> \<not> can_be_edited instance
                then (st, \<lparr>status_code = 400,
                           data = Error ''Cannot update request that is not in pending status.''\<rparr>)
                else
                  case Update_is_valid py instance rdata of
                    Inl errors \<Rightarrow> (st, \<lparr>status_code = 400, data = FieldErrors errors\<rparr>)
                  | Inr validated \<Rightarrow>
                      (case Update_update py st instance validated of
                         Inl e \<Rightarrow>
                           (st, \<lparr>status_code = 400,
                                 data = FieldErrors [(''request_type_id'', e)]\<rparr>)
                       | Inr st1 \<Rightarrow>
                           (case find (\<lambda>r. pr_id r = pr_id instance) (purchase_requests st1) of
                              None \<Rightarrow> (st, \<lparr>status_code = 500, data = Error ''Server Error (500)''\<rparr>)
                            | Some refreshed \<Rightarrow>
                                let st2 = (if d_proforma rdata \<noteq> Missing
                                              \<and> file_is_set (proforma refreshed)
                                           then st1\<lparr>tasks := tasks st1
                                                            @ [process_proforma (pr_id refreshed)]\<rparr>
                                           else st1)
                                in (st2, \<lparr>status_code = 200, data = Detail refreshed\<rparr>))))"

section \<open>Receipt validation (\<^verbatim>\<open>procurement/document_processing.py\<close>)\<close>

subsection \<open>The comparison of the totals in \<^verbatim>\<open>validate_receipt\<close>\<close>

text \<open>
  An entry of the \<^verbatim>\<open>discrepancies\<close> list, without its \<^verbatim>\<open>description\<close> text.
\<close>

record discrepancy =
  kind :: string
  expected :: binary64
  actual :: binary64

text \<open>
  The step \<^verbatim>\<open>Compare total amount (with tolerance)\<close>: \<open>receipt_number\<close> is the number under the key
  \<^verbatim>\<open>total\<close> of the extracted receipt data, \<open>po_amount\<close> the amount of the purchase request.
  The result is what the step appends to \<^verbatim>\<open>discrepancies\<close>.
\<close>

definition compare_total_amount :: "Decimal \<Rightarrow> Decimal \<Rightarrow> discrepancy list" where
  "compare_total_amount receipt_number po_amount =
     (let receipt_total = float_of_Decimal receipt_number;
          po_total = float_of_Decimal po_amount;
          tolerance = float_of_Decimal \<lparr>coefficient = 1, exponent = - 2\<rparr>
      in if float_greater (float_abs (float_sub receipt_total po_total)) tolerance
         then [\<lparr>kind = ''price_mismatch'', expected = po_total, actual = receipt_total\<rparr>]
         else [])"

section \<open>Concrete scenarios\<close>

text \<open>
  Callers and database states on which the definitions above are run. A request type with
  two required levels that share the role \<^verbatim>\<open>approver_level_1\<close>, stored with level 2 ahead
  of level 1:
\<close>

definition approver_one :: User where
  "approver_one = \<lparr>user_id = 8, is_authenticated = True, is_superuser = False,
                    profile = Some \<lparr>role = ''approver_level_1''\<rparr>\<rparr>"

definition approver_two :: User where
  "approver_two = \<lparr>user_id = 9, is_authenticated = True, is_superuser = False,
                    profile = Some \<lparr>role = ''approver_level_2''\<rparr>\<rparr>"

definition laptops :: PurchaseRequest where
  "laptops = \<lparr>pr_id = 100, title = ''Laptops'', description = ''Two laptops'',
               amount = \<lparr>coefficient = 100000, exponent = - 2\<rparr>, status = ''pending'',
               request_type = 1, created_by = 7, approved_by = None, proforma = None,
               submitted_at = Some 1\<rparr>"

definition shared_role_state :: state where
  "shared_role_state =
     \<lparr>backend = PostgreSQL,
      request_types = [\<lparr>rt_id = 1, rt_name = ''Equipment'', rt_is_active = True\<rparr>],
      approval_levels =
        [\<lparr>al_id = 12, al_request_type = 1, level_number = 2,
          approver_role = ''approver_level_1'', is_required = True\<rparr>,
         \<lparr>al_id = 11, al_request_type = 1, level_number = 1,
          approver_role = ''approver_level_1'', is_required = True\<rparr>],
      purchase_requests = [laptops],
      approvals = [], request_items = [], item_seq = 1, tasks = []\<rparr>"

definition shared_role_outcome :: "state \<times> Response" where
  "shared_role_outcome =
     (shared_role_state\<lparr>approvals :=
        [\<lparr>ap_id = 500, purchase_request_id = Some 100, approver = 8,
          approval_level = 11, action = ''approved'', comments = Some [],
          ap_created_by = Some 8, approved_at = Some 5, rejected_at = None\<rparr>]\<rparr>,
      \<lparr>status_code = 200, data = Detail laptops\<rparr>)"

text \<open>
  A request that was fully approved, and a rejection record created for it afterwards
  (directly on the model, as \<^verbatim>\<open>tests/test_approval_workflow.py\<close> does):
\<close>

definition settled_state :: state where
  "settled_state =
     \<lparr>backend = PostgreSQL,
      request_types = [\<lparr>rt_id = 1, rt_name = ''Equipment'', rt_is_active = True\<rparr>],
      approval_levels =
        [\<lparr>al_id = 11, al_request_type = 1, level_number = 1,
          approver_role = ''approver_level_1'', is_required = True\<rparr>,
         \<lparr>al_id = 12, al_request_type = 1, level_number = 2,
          approver_role = ''approver_level_2'', is_required = True\<rparr>],
      purchase_requests = [laptops\<lparr>status := ''approved'', approved_by := Some 9\<rparr>],
      approvals = [], request_items = [], item_seq = 1, tasks = []\<rparr>"

definition late_rejection :: Approval where
  "late_rejection =
     \<lparr>ap_id = 500, purchase_request_id = Some 100, approver = 8, approval_level = 11,
      action = ''rejected'', comments = Some ''Not approved'', ap_created_by = None,
      approved_at = None, rejected_at = None\<rparr>"

definition settled_state_after :: state where
  "settled_state_after =
     settled_state\<lparr>purchase_requests := [laptops\<lparr>status := ''rejected'', approved_by := Some 9\<rparr>],
                    approvals := [late_rejection]\<rparr>"

text \<open>
  A request first approved at level 1 of type 1 (levels 11 and 12), then moved by its
  owner to type 2 (levels 21 and 22) while still pending, as the update endpoint allows:
\<close>

definition retyped_state :: state where
  "retyped_state =
     \<lparr>backend = PostgreSQL,
      request_types = [\<lparr>rt_id = 1, rt_name = ''Equipment'', rt_is_active = True\<rparr>,
                        \<lparr>rt_id = 2, rt_name = ''Services'', rt_is_active = True\<rparr>],
      approval_levels =
        [\<lparr>al_id = 11, al_request_type = 1, level_number = 1,
          approver_role = ''approver_level_1'', is_required = True\<rparr>,
         \<lparr>al_id = 12, al_request_type = 1, level_number = 2,
          approver_role = ''approver_level_2'', is_required = True\<rparr>,
         \<lparr>al_id = 21, al_request_type = 2, level_number = 1,
          approver_role = ''approver_level_1'', is_required = True\<rparr>,
         \<lparr>al_id = 22, al_request_type = 2, level_number = 2,
          approver_role = ''approver_level_2'', is_required = True\<rparr>],
      purchase_requests = [laptops\<lparr>request_type := 2\<rparr>],
      approvals =
        [\<lparr>ap_id = 500, purchase_request_id = Some 100, approver = 8,
          approval_level = 11, action = ''approved'', comments = Some [],
          ap_created_by = Some 8, approved_at = Some 5, rejected_at = None\<rparr>],
      request_items = [], item_seq = 1, tasks = []\<rparr>"

definition retyped_outcome :: "state \<times> Response" where
  "retyped_outcome =
     (retyped_state
        \<lparr>purchase_requests :=
           [laptops\<lparr>request_type := 2, status := ''approved'', approved_by := Some 9\<rparr>],
         approvals :=
           [\<lparr>ap_id = 500, purchase_request_id = Some 100, approver = 8,
             approval_level = 11, action = ''approved'', comments = Some [],
             ap_created_by = Some 8, approved_at = Some 5, rejected_at = None\<rparr>,
            \<lparr>ap_id = 501, purchase_request_id = Some 100, approver = 9,
             approval_level = 22, action = ''approved'', comments = Some [],
             ap_created_by = Some 9, approved_at = Some 6, rejected_at = None\<rparr>],
         tasks := [generate_purchase_order_task 100]\<rparr>,
      \<lparr>status_code = 200,
       data = Detail (laptops\<lparr>request_type := 2, status := ''approved'',
                              approved_by := Some 9\<rparr>)\<rparr>)"


text \<open>The owner of request 100, an administrator, and request bodies.\<close>

definition staff_owner :: User where
  "staff_owner = \<lparr>user_id = 7, is_authenticated = True, is_superuser = False,
                   profile = Some \<lparr>role = ''staff''\<rparr>\<rparr>"

definition admin_user :: User where
  "admin_user = \<lparr>user_id = 1, is_authenticated = True, is_superuser = True,
                  profile = Some \<lparr>role = ''admin''\<rparr>\<rparr>"

definition chairs_data :: request_data where
  "chairs_data =
     \<lparr>d_title = Valid ''Chairs'', d_description = Valid ''Ten office chairs'',
      d_amount = Valid \<lparr>coefficient = 150000, exponent = - 2\<rparr>,
      d_request_type_id = Valid 1, d_proforma = Missing, d_items = None\<rparr>"

definition blank_item :: pyval where
  "blank_item =
     PyDict [(''description'', PyStr []), (''quantity'', PyInt 2),
             (''unit_price'', PyFloat \<lparr>coefficient = 55, exponent = - 1\<rparr>)]"




definition monitors :: RequestItem where
  "monitors = \<lparr>ri_id = None, ri_purchase_request = 100, ri_description = ''Monitor'',
        quantity = 5, unit_price = DecimalNumber \<lparr>coefficient = 20000, exponent = - 2\<rparr>,
        total_price = Some \<lparr>coefficient = 1, exponent = 0\<rparr>\<rparr>"

definition monitors_stored :: RequestItem where
  "monitors_stored =
     \<lparr>ri_id = Some 1, ri_purchase_request = 100, ri_description = ''Monitor'', quantity = 5,
      unit_price = DecimalNumber \<lparr>coefficient = 20000, exponent = - 2\<rparr>,
      total_price = Some \<lparr>coefficient = 100000, exponent = - 2\<rparr>\<rparr>"

text \<open>
  A line item as the serializers build it from the JSON number 0.335, and the row each
  backend stores for it.
\<close>

definition cables :: RequestItem where
  "cables = \<lparr>ri_id = None, ri_purchase_request = 100, ri_description = ''Cable'',
        quantity = 3, unit_price = FloatNumber \<lparr>coefficient = 335, exponent = - 3\<rparr>,
        total_price = None\<rparr>"

definition cables_stored :: "backend \<Rightarrow> RequestItem" where
  "cables_stored b =
     \<lparr>ri_id = Some 1, ri_purchase_request = 100, ri_description = ''Cable'', quantity = 3,
      unit_price = DecimalNumber \<lparr>coefficient = 34, exponent = - 2\<rparr>,
      total_price = Some \<lparr>coefficient = (case b of PostgreSQL \<Rightarrow> 101 | SQLite \<Rightarrow> 100),
                          exponent = - 2\<rparr>\<rparr>"

section \<open>Theorems\<close>

subsection \<open>Level-specific approver policies\<close>

text \<open>
  C6. Is Approver Level 1 (respectively Level 2) grants access if and only if there is a
  caller, the caller is authenticated and has a profile whose role is exactly
  \<^verbatim>\<open>approver_level_1\<close> (respectively \<^verbatim>\<open>approver_level_2\<close>). The superuser flag plays no
  part: a superuser whose profile role does not match is denied by both policies, and a
  caller with no profile row is denied (the policy returns False, it does not raise).
\<close>

theorem level_policies_exact_role:
  "(IsApproverLevel1 ru \<longleftrightarrow>
      (\<exists>u p. ru = Some u \<and> is_authenticated u \<and> profile u = Some p
             \<and> role p = ''approver_level_1''))
   \<and> (IsApproverLevel2 ru \<longleftrightarrow>
      (\<exists>u p. ru = Some u \<and> is_authenticated u \<and> profile u = Some p
             \<and> role p = ''approver_level_2''))
   \<and> (\<forall>u p. is_superuser u \<and> profile u = Some p \<and> role p \<noteq> ''approver_level_1''
          \<longrightarrow> \<not> IsApproverLevel1 (Some u))
   \<and> (\<forall>u p. is_superuser u \<and> profile u = Some p \<and> role p \<noteq> ''approver_level_2''
          \<longrightarrow> \<not> IsApproverLevel2 (Some u))
   \<and> (\<forall>u. profile u = None
          \<longrightarrow> \<not> IsApproverLevel1 (Some u) \<and> \<not> IsApproverLevel2 (Some u))"
  by (auto simp: IsApproverLevel1_def IsApproverLevel2_def split: option.splits)

theorem level_policies_exact_role_witness:
  "IsApproverLevel1 (Some \<lparr>user_id = 1, is_authenticated = True, is_superuser = False,
                          profile = Some \<lparr>role = ''approver_level_1''\<rparr>\<rparr>)
   \<and> IsApproverLevel2 (Some \<lparr>user_id = 2, is_authenticated = True, is_superuser = False,
                            profile = Some \<lparr>role = ''approver_level_2''\<rparr>\<rparr>)
   \<and> \<not> IsApproverLevel1 (Some \<lparr>user_id = 3, is_authenticated = True, is_superuser = True,
                              profile = Some \<lparr>role = ''finance''\<rparr>\<rparr>)
   \<and> \<not> IsApproverLevel2 (Some \<lparr>user_id = 3, is_authenticated = True, is_superuser = True,
                              profile = Some \<lparr>role = ''finance''\<rparr>\<rparr>)
   \<and> \<not> IsApproverLevel1 (Some \<lparr>user_id = 4, is_authenticated = True, is_superuser = True,
                              profile = None\<rparr>)
   \<and> \<not> IsApproverLevel2 (Some \<lparr>user_id = 4, is_authenticated = True, is_superuser = True,
                              profile = None\<rparr>)"
  using level_policies_exact_role
    [of "Some \<lparr>user_id = 1, is_authenticated = True, is_superuser = False,
               profile = Some \<lparr>role = ''approver_level_1''\<rparr>\<rparr>"]
    level_policies_exact_role
    [of "Some \<lparr>user_id = 2, is_authenticated = True, is_superuser = False,
               profile = Some \<lparr>role = ''approver_level_2''\<rparr>\<rparr>"]
    level_policies_exact_role [of None]
  by simp

subsection \<open>The approval workflow\<close>

lemma find_sorted_least:
  "sorted (map f ys) \<Longrightarrow> find P ys = Some x
     \<Longrightarrow> x \<in> set ys \<and> P x \<and> (\<forall>y \<in> set ys. P y \<longrightarrow> f x \<le> f y)"
  by (induction ys) (auto split: if_splits)

lemma find_sort_key_least:
  assumes "find P (sort_key f xs) = Some x"
  shows "x \<in> set xs \<and> P x \<and> (\<forall>y \<in> set xs. P y \<longrightarrow> f x \<le> f y)"
  using find_sorted_least [of f "sort_key f xs" P x] assms by simp

lemma create_approvals:
  "Approval_objects_create st a = Inr st' \<Longrightarrow> approvals st' = approvals st @ [a] \<and> ap_id a \<notin> set (map ap_id (approvals st))
    \<and> approval_levels st' = approval_levels st \<and> tasks st' = tasks st
    \<and> map pr_id (purchase_requests st') = map pr_id (purchase_requests st)"
  by (auto simp: Approval_objects_create_def update_purchase_request_status_on_rejection_def comp_def
      split: if_splits option.splits)

lemma save_after_create:
  assumes "ap_id a \<notin> set (map ap_id xs)" "ap_id b = ap_id a"
  shows "map (\<lambda>c. if ap_id c = ap_id b then b else c) (xs @ [a]) = xs @ [b]"
  using assms by (induction xs) auto

lemma rejection_signal_ids:
  "map pr_id (purchase_requests (update_purchase_request_status_on_rejection st a c))
     = map pr_id (purchase_requests st)"
  by (simp add: update_purchase_request_status_on_rejection_def comp_def)

lemma rejection_signal_fires:
  assumes "action a = ''rejected''" "purchase_request_id a = Some pid"
  shows "purchase_requests (update_purchase_request_status_on_rejection st a True)
           = map (\<lambda>r. if pr_id r = pid then r\<lparr>status := ''rejected''\<rparr> else r)
                 (purchase_requests st)"
  using assms by (simp add: update_purchase_request_status_on_rejection_def)

lemma rejection_signal_status:
  assumes "action a = ''rejected''" "purchase_request_id a = Some pid"
    and "r \<in> set (purchase_requests (update_purchase_request_status_on_rejection st a True))"
    and "pr_id r = pid"
  shows "status r = ''rejected''"
proof -
  let ?F = "\<lambda>r. if pr_id r = pid then r\<lparr>status := ''rejected''\<rparr> else r"
  from assms(3) have "r \<in> ?F ` set (purchase_requests st)"
    unfolding rejection_signal_fires [OF assms(1,2)] set_map .
  then obtain r0 where r0: "r = ?F r0" by (rule imageE)
  show ?thesis
  proof (cases "pr_id r0 = pid")
    case True
    with r0 show ?thesis by simp
  next
    case False
    with r0 assms(4) show ?thesis by simp
  qed
qed

lemma record_decision_appends:
  assumes "record_decision st u pr lvl levels act cmts now new_id = (st', resp)"
    and "status_code resp = 200"
  shows "\<exists>a. approvals st' = approvals st @ [a] \<and> approval_level a = al_id lvl
            \<and> approver a = user_id u \<and> action a = act
            \<and> purchase_request_id a = Some (pr_id pr)"
proof -
  from assms have pend: "status pr = ''pending''"
    by (auto simp: record_decision_def split: if_splits)
  let ?a0 = "\<lparr>ap_id = new_id, purchase_request_id = Some (pr_id pr),
                approver = user_id u, approval_level = al_id lvl,
                action = act, comments = cmts, ap_created_by = Some (user_id u),
                approved_at = None, rejected_at = None\<rparr>"
  from assms pend obtain st1 where st1: "Approval_objects_create st ?a0 = Inr st1"
    by (cases "Approval_objects_create st ?a0") (auto simp: record_decision_def)
  from create_approvals [OF st1] have ap1: "approvals st1 = approvals st @ [?a0]"
    and fresh: "new_id \<notin> set (map ap_id (approvals st))" by simp_all
  let ?a = "\<lparr>ap_id = new_id, purchase_request_id = Some (pr_id pr),
                   approver = user_id u, approval_level = al_id lvl,
                   action = act, comments = cmts, ap_created_by = Some (user_id u),
                   approved_at = (if act = ''approved'' then Some now else None),
                   rejected_at = (if act \<noteq> ''approved'' \<and> act = ''rejected''
                                  then Some now else None)\<rparr>"
  have ap2: "approvals (Approval_save st1 ?a) = approvals st @ [?a]"
    using save_after_create [of ?a0 "approvals st" ?a] fresh
    by (simp add: Approval_save_def update_purchase_request_status_on_rejection_def ap1)
  from assms pend st1 have "approvals st' = approvals (Approval_save st1 ?a)"
    by (auto simp: record_decision_def Let_def PurchaseRequest_save_def
        split: if_splits option.splits)
  with ap2 show ?thesis by simp
qed


text \<open>
  C2. Creating an Approval record whose action is \<^verbatim>\<open>rejected\<close> sets the status of the
  purchase request it belongs to to \<^verbatim>\<open>rejected\<close>, whatever that status was and whatever
  approval levels exist or have been approved. This is a property of record creation
  itself (\<open>Approval_objects_create\<close> runs the \<^verbatim>\<open>post_save\<close> receiver), not of the approval
  endpoint: no view is involved.
\<close>

theorem rejection_record_rejects_request:
  assumes "Approval_objects_create st a = Inr st'" and "action a = ''rejected''"
  shows "\<exists>pid. purchase_request_id a = Some pid
           \<and> pid \<in> set (map pr_id (purchase_requests st'))
           \<and> (\<forall>r \<in> set (purchase_requests st'). pr_id r = pid \<longrightarrow> status r = ''rejected'')
           \<and> approvals st' = approvals st @ [a]"
proof -
  from assms(1) obtain pid where pid: "purchase_request_id a = Some pid"
    by (cases "purchase_request_id a") (auto simp: Approval_objects_create_def split: if_splits)
  from assms(1) pid have known: "pid \<in> set (map pr_id (purchase_requests st))"
    by (auto simp: Approval_objects_create_def split: if_splits)
  from assms(1) pid have st': "st' = update_purchase_request_status_on_rejection
                      (st\<lparr>approvals := approvals st @ [a]\<rparr>) a True"
    by (auto simp: Approval_objects_create_def split: if_splits)
  have ids: "map pr_id (purchase_requests st') = map pr_id (purchase_requests st)"
    unfolding st' rejection_signal_ids by simp
  have "status r = ''rejected''" if "r \<in> set (purchase_requests st')" "pr_id r = pid" for r
    using rejection_signal_status [OF assms(2) pid] that unfolding st' by blast
  moreover from create_approvals [OF assms(1)] have "approvals st' = approvals st @ [a]" by simp
  ultimately show ?thesis using pid known ids by simp
qed

theorem rejection_record_rejects_request_witness:
  "Approval_objects_create settled_state late_rejection = Inr settled_state_after
   \<and> action late_rejection = ''rejected''
   \<and> map status (purchase_requests settled_state) = [''approved'']
   \<and> (\<exists>pid. purchase_request_id late_rejection = Some pid
           \<and> pid \<in> set (map pr_id (purchase_requests settled_state_after))
           \<and> (\<forall>r \<in> set (purchase_requests settled_state_after).
                 pr_id r = pid \<longrightarrow> status r = ''rejected'')
           \<and> approvals settled_state_after = approvals settled_state @ [late_rejection])"
proof -
  have run: "Approval_objects_create settled_state late_rejection = Inr settled_state_after"
    by code_simp
  have act: "action late_rejection = ''rejected''"
    by (simp add: late_rejection_def)
  have before: "map status (purchase_requests settled_state) = [''approved'']"
    by (simp add: settled_state_def laptops_def)
  from rejection_record_rejects_request [OF run act] run act before show ?thesis
    by blast
qed

text \<open>
  C10. A non-superuser whose approve or reject call succeeds has the decision recorded
  against a required level of the request's type whose role is the caller's profile role
  and whose level number is the least among all such levels: the levels are scanned in
  ascending level number and the first match is taken. When several required levels
  share the role, the caller therefore never records a decision at a higher-numbered one.
\<close>

theorem first_matching_level_is_lowest:
  assumes run: "guarded_approval st req pk act body_in now new_id = (st', resp)"
    and ok: "status_code resp = 200"
    and caller: "user req = Some u" "\<not> is_superuser u"
  shows "\<exists>p pr l a.
           profile u = Some p \<and> get_object st req pk = Some pr
         \<and> l \<in> set (approval_levels st) \<and> al_request_type l = request_type pr
         \<and> is_required l \<and> approver_role l = role p
         \<and> (\<forall>l' \<in> set (approval_levels st).
                al_request_type l' = request_type pr \<and> is_required l'
                \<and> approver_role l' = role p
                \<longrightarrow> level_number l \<le> level_number l')
         \<and> approvals st' = approvals st @ [a]
         \<and> approval_level a = al_id l \<and> approver a = user_id u \<and> action a = act"
proof -
  from run ok have h: "handle_approval_action st req pk act body_in now new_id = (st', resp)"
    by (auto simp: guarded_approval_def split: if_splits)
  from h ok obtain pr where pr: "get_object st req pk = Some pr"
    by (cases "get_object st req pk") (auto simp: handle_approval_action_def)
  from h ok pr caller obtain p where p: "profile u = Some p"
    by (cases "profile u") (auto simp: handle_approval_action_def)
  let ?levels = "required_approval_levels st pr"
  from h ok pr caller p obtain l where l: "find_user_approval_level ?levels p = Some l"
    by (cases "find_user_approval_level ?levels p")
       (auto simp: handle_approval_action_def Let_def split: if_splits)
  from h ok pr caller p l obtain cmts where
    rd: "record_decision st u pr l ?levels act cmts now new_id = (st', resp)"
    by (cases body_in) (auto simp: handle_approval_action_def Let_def split: if_splits)
  from record_decision_appends [OF rd ok] obtain a where
    a: "approvals st' = approvals st @ [a]" "approval_level a = al_id l"
       "approver a = user_id u" "action a = act" by blast
  from l have least:
    "l \<in> set (filter (\<lambda>l. al_request_type l = request_type pr \<and> is_required l) (approval_levels st))
     \<and> approver_role l = role p
     \<and> (\<forall>y \<in> set (filter (\<lambda>l. al_request_type l = request_type pr \<and> is_required l) (approval_levels st)).
           approver_role y = role p \<longrightarrow> level_number l \<le> level_number y)"
    unfolding find_user_approval_level_def required_approval_levels_def
    by (rule find_sort_key_least)
  with p pr a show ?thesis by auto
qed

theorem first_matching_level_is_lowest_witness:
  "guarded_approval shared_role_state \<lparr>user = Some approver_one, status_param = None\<rparr>
       100 ''approved'' Missing 5 500 = shared_role_outcome
   \<and> status_code (snd shared_role_outcome) = 200
   \<and> \<not> is_superuser approver_one
   \<and> (\<exists>p pr l a.
           profile approver_one = Some p
         \<and> get_object shared_role_state \<lparr>user = Some approver_one, status_param = None\<rparr> 100
               = Some pr
         \<and> l \<in> set (approval_levels shared_role_state) \<and> al_request_type l = request_type pr
         \<and> is_required l \<and> approver_role l = role p
         \<and> (\<forall>l' \<in> set (approval_levels shared_role_state).
                al_request_type l' = request_type pr \<and> is_required l'
                \<and> approver_role l' = role p
                \<longrightarrow> level_number l \<le> level_number l')
         \<and> approvals (fst shared_role_outcome) = approvals shared_role_state @ [a]
         \<and> approval_level a = al_id l \<and> approver a = user_id approver_one
         \<and> action a = ''approved'')
   \<and> map approval_level (approvals (fst shared_role_outcome)) = [11]"
proof -
  have run: "guarded_approval shared_role_state \<lparr>user = Some approver_one, status_param = None\<rparr>
       100 ''approved'' Missing 5 500 = shared_role_outcome"
    by code_simp
  hence run': "guarded_approval shared_role_state \<lparr>user = Some approver_one, status_param = None\<rparr>
       100 ''approved'' Missing 5 500 = (fst shared_role_outcome, snd shared_role_outcome)"
    by simp
  have ok: "status_code (snd shared_role_outcome) = 200"
    by (simp add: shared_role_outcome_def)
  have caller: "user \<lparr>user = Some approver_one, status_param = None\<rparr> = Some approver_one"
    by simp
  have plain: "\<not> is_superuser approver_one"
    by (simp add: approver_one_def)
  have recorded: "map approval_level (approvals (fst shared_role_outcome)) = [11]"
    by (simp add: shared_role_outcome_def)
  from first_matching_level_is_lowest [OF run' ok caller plain] run ok plain recorded
  show ?thesis by blast
qed

lemma distinct_map_insort_key:
  "distinct (map g (insort_key f a xs)) \<longleftrightarrow> distinct (map g (a # xs))"
  by (induction xs) (auto simp: set_insort_key)

lemma distinct_map_sort_key:
  "distinct (map g (sort_key f xs)) \<longleftrightarrow> distinct (map g xs)"
  by (induction xs) (simp_all add: distinct_map_insort_key)

lemma required_levels_distinct:
  assumes "distinct (map al_id (approval_levels st))"
  shows "distinct (map al_id (required_approval_levels st pr))"
  unfolding required_approval_levels_def distinct_map_sort_key
  using assms by (rule distinct_map_filter)

text \<open>
  The test of the approve branch compares two counts. When the level keys are distinct
  and every approved Approval of the request sits at a required level of the request's
  type, the count of distinct approved levels reaches the count of required levels
  exactly when every required level has an approved Approval.
\<close>

lemma approved_count_reaches_required_iff:
  assumes keys: "distinct (map al_id (approval_levels st))"
    and within: "\<forall>a \<in> set (approvals st).
                   purchase_request_id a = Some (pr_id pr) \<and> action a = ''approved''
                   \<longrightarrow> approval_level a \<in> set (map al_id (required_approval_levels st pr))"
  shows "approved_levels_count st pr \<ge> length (required_approval_levels st pr)
         \<longleftrightarrow> (\<forall>l \<in> set (required_approval_levels st pr).
                \<exists>a \<in> set (approvals st).
                  purchase_request_id a = Some (pr_id pr) \<and> action a = ''approved''
                  \<and> approval_level a = al_id l)"
proof -
  let ?S = "set (map approval_level
               (filter (\<lambda>a. purchase_request_id a = Some (pr_id pr) \<and> action a = ''approved'')
                       (approvals st)))"
  let ?R = "set (map al_id (required_approval_levels st pr))"
  have count: "approved_levels_count st pr = card ?S"
    unfolding approved_levels_count_def by (simp only: length_remdups_card_conv)
  have req: "length (required_approval_levels st pr) = card ?R"
    using required_levels_distinct [OF keys, of pr] distinct_card by fastforce
  have sub: "?S \<subseteq> ?R" using within by auto
  have "card ?R \<le> card ?S \<longleftrightarrow> ?R \<subseteq> ?S"
  proof
    assume "card ?R \<le> card ?S"
    with sub have "?S = ?R" by (intro card_seteq) simp_all
    thus "?R \<subseteq> ?S" by simp
  next
    assume "?R \<subseteq> ?S"
    thus "card ?R \<le> card ?S" by (intro card_mono) simp_all
  qed
  moreover have "?R \<subseteq> ?S \<longleftrightarrow> (\<forall>l \<in> set (required_approval_levels st pr).
                \<exists>a \<in> set (approvals st).
                  purchase_request_id a = Some (pr_id pr) \<and> action a = ''approved''
                  \<and> approval_level a = al_id l)"
  proof
    assume sub': "?R \<subseteq> ?S"
    show "\<forall>l \<in> set (required_approval_levels st pr).
                \<exists>a \<in> set (approvals st).
                  purchase_request_id a = Some (pr_id pr) \<and> action a = ''approved''
                  \<and> approval_level a = al_id l"
    proof
      fix l assume "l \<in> set (required_approval_levels st pr)"
      hence "al_id l \<in> ?R" by simp
      with sub' have "al_id l \<in> ?S" by blast
      thus "\<exists>a \<in> set (approvals st).
                  purchase_request_id a = Some (pr_id pr) \<and> action a = ''approved''
                  \<and> approval_level a = al_id l" by auto
    qed
  next
    assume cover: "\<forall>l \<in> set (required_approval_levels st pr).
                \<exists>a \<in> set (approvals st).
                  purchase_request_id a = Some (pr_id pr) \<and> action a = ''approved''
                  \<and> approval_level a = al_id l"
    show "?R \<subseteq> ?S"
    proof
      fix k assume "k \<in> ?R"
      then obtain l where l: "l \<in> set (required_approval_levels st pr)" "k = al_id l" by auto
      with cover obtain a where "a \<in> set (approvals st)"
        "purchase_request_id a = Some (pr_id pr) \<and> action a = ''approved''"
        "approval_level a = al_id l" by blast
      with l(2) show "k \<in> ?S" by force
    qed
  qed
  ultimately show ?thesis using count req by simp
qed

lemma create_approved_state:
  assumes "Approval_objects_create st a = Inr st1" and "action a = ''approved''"
  shows "st1 = st\<lparr>approvals := approvals st @ [a]\<rparr> \<and> ap_id a \<notin> set (map ap_id (approvals st))"
  using assms
  by (auto simp: Approval_objects_create_def update_purchase_request_status_on_rejection_def
      split: if_splits option.splits)

lemma record_decision_approved:
  assumes run: "record_decision st u pr lvl levels act cmts now new_id = (st', resp)"
    and ok: "status_code resp = 200"
    and appr: "act = ''approved''"
  shows "\<exists>a. action a = ''approved'' \<and> approval_level a = al_id lvl
             \<and> purchase_request_id a = Some (pr_id pr)
             \<and> st' = (if approved_levels_count (st\<lparr>approvals := approvals st @ [a]\<rparr>) pr
                          \<ge> length levels
                       then (PurchaseRequest_save (st\<lparr>approvals := approvals st @ [a]\<rparr>)
                               (pr\<lparr>status := ''approved'', approved_by := Some (user_id u)\<rparr>))
                            \<lparr>tasks := tasks st @ [generate_purchase_order_task (pr_id pr)]\<rparr>
                       else st\<lparr>approvals := approvals st @ [a]\<rparr>)"
proof -
  from run ok have pend: "status pr = ''pending''"
    by (auto simp: record_decision_def split: if_splits)
  define a0 where "a0 = \<lparr>ap_id = new_id, purchase_request_id = Some (pr_id pr),
                approver = user_id u, approval_level = al_id lvl,
                action = act, comments = cmts, ap_created_by = Some (user_id u),
                approved_at = None, rejected_at = None\<rparr>"
  define a where "a = \<lparr>ap_id = new_id, purchase_request_id = Some (pr_id pr),
                approver = user_id u, approval_level = al_id lvl,
                action = act, comments = cmts, ap_created_by = Some (user_id u),
                approved_at = (if act = ''approved'' then Some now else None),
                rejected_at = (if act \<noteq> ''approved'' \<and> act = ''rejected''
                               then Some now else None)\<rparr>"
  have unfolded: "record_decision st u pr lvl levels act cmts now new_id =
     (case Approval_objects_create st a0 of
        Inl e \<Rightarrow> (st, \<lparr>status_code = 500, data = Error ''Server Error (500)''\<rparr>)
      | Inr st1 \<Rightarrow>
          let st2 = Approval_save st1 a;
              st3 = (if approved_levels_count st2 pr \<ge> length levels
                     then (PurchaseRequest_save st2
                             (pr\<lparr>status := ''approved'', approved_by := Some (user_id u)\<rparr>))
                          \<lparr>tasks := tasks st2 @ [generate_purchase_order_task (pr_id pr)]\<rparr>
                     else st2)
          in case find (\<lambda>r. pr_id r = pr_id pr) (purchase_requests st3) of
               Some refreshed \<Rightarrow> (st3, \<lparr>status_code = 200, data = Detail refreshed\<rparr>)
             | None \<Rightarrow> (st, \<lparr>status_code = 500, data = Error ''Server Error (500)''\<rparr>))"
    unfolding record_decision_def a0_def a_def appr using pend
    by (simp add: Let_def split: sum.splits)
  from run ok obtain st1 where st1: "Approval_objects_create st a0 = Inr st1"
    unfolding unfolded by (cases "Approval_objects_create st a0") auto
  have act_a0: "action a0 = ''approved''" by (simp add: a0_def appr)
  from create_approved_state [OF st1 act_a0]
  have st1_eq: "st1 = st\<lparr>approvals := approvals st @ [a0]\<rparr>"
    and fresh: "ap_id a0 \<notin> set (map ap_id (approvals st))" by simp_all
  have same_id: "ap_id a = ap_id a0" by (simp add: a_def a0_def)
  have act_a: "action a = ''approved''" by (simp add: a_def appr)
  have st2: "Approval_save st1 a = st\<lparr>approvals := approvals st @ [a]\<rparr>"
    using save_after_create [OF fresh same_id] act_a
    by (simp add: Approval_save_def update_purchase_request_status_on_rejection_def st1_eq)
  have tasks2: "tasks (st\<lparr>approvals := approvals st @ [a]\<rparr>) = tasks st" by simp
  from run [unfolded unfolded st1 sum.case Let_def st2 tasks2] ok have
    "st' = (if approved_levels_count (st\<lparr>approvals := approvals st @ [a]\<rparr>) pr \<ge> length levels
            then (PurchaseRequest_save (st\<lparr>approvals := approvals st @ [a]\<rparr>)
                    (pr\<lparr>status := ''approved'', approved_by := Some (user_id u)\<rparr>))
                 \<lparr>tasks := tasks st @ [generate_purchase_order_task (pr_id pr)]\<rparr>
            else st\<lparr>approvals := approvals st @ [a]\<rparr>)"
    by (auto split: option.splits if_splits)
  moreover have "approval_level a = al_id lvl" "purchase_request_id a = Some (pr_id pr)"
    by (simp_all add: a_def)
  ultimately show ?thesis using act_a by blast
qed

lemma handle_reaches_record_decision:
  assumes run: "guarded_approval st req pk act body_in now new_id = (st', resp)"
    and ok: "status_code resp = 200"
  shows "\<exists>pr u lvl cmts. get_object st req pk = Some pr \<and> user req = Some u
           \<and> lvl \<in> set (required_approval_levels st pr)
           \<and> record_decision st u pr lvl (required_approval_levels st pr) act cmts now new_id
               = (st', resp)"
proof -
  from run ok have h: "handle_approval_action st req pk act body_in now new_id = (st', resp)"
    by (auto simp: guarded_approval_def split: if_splits)
  from h ok obtain pr where pr: "get_object st req pk = Some pr"
    by (cases "get_object st req pk") (auto simp: handle_approval_action_def)
  from h ok pr obtain u where u: "user req = Some u"
    by (cases "user req") (auto simp: handle_approval_action_def)
  let ?levels = "required_approval_levels st pr"
  from h ok pr u have ne: "?levels \<noteq> []"
    by (auto simp: handle_approval_action_def Let_def split: if_splits)
  define chosen where "chosen = (if is_superuser u then Some (last ?levels)
                  else case profile u of
                         None \<Rightarrow> None
                       | Some p \<Rightarrow> find_user_approval_level ?levels p)"
  from h ok pr u ne obtain lvl where lvl: "chosen = Some lvl"
    unfolding chosen_def
    by (cases "if is_superuser u then Some (last ?levels)
                  else case profile u of
                         None \<Rightarrow> None
                       | Some p \<Rightarrow> find_user_approval_level ?levels p")
       (auto simp: handle_approval_action_def Let_def split: if_splits)
  have mem: "lvl \<in> set ?levels"
  proof (cases "is_superuser u")
    case True
    with lvl ne show ?thesis by (auto simp: chosen_def)
  next
    case False
    with lvl obtain p where "find_user_approval_level ?levels p = Some lvl"
      by (auto simp: chosen_def split: option.splits)
    thus ?thesis
      unfolding find_user_approval_level_def find_Some_iff by auto
  qed
  from h ok pr u ne lvl obtain cmts where
    "record_decision st u pr lvl ?levels act cmts now new_id = (st', resp)"
    unfolding chosen_def
    by (cases body_in) (auto simp: handle_approval_action_def Let_def split: if_splits)
  with pr u mem show ?thesis by blast
qed

text \<open>
  Under that condition on the state before the call, a successful approve call sets the
  request to \<^verbatim>\<open>approved\<close> with the caller as \<open>approved_by\<close> and enqueues the purchase-order
  task if every required level now has an approved Approval, and otherwise leaves the
  request rows and the task queue as they were.
\<close>

lemma approve_completes_exactly_when_covered:
  assumes run: "guarded_approval st req pk ''approved'' body_in now new_id = (st', resp)"
    and ok: "status_code resp = 200"
    and keys: "distinct (map al_id (approval_levels st))"
    and within: "\<forall>pr. get_object st req pk = Some pr \<longrightarrow>
                  (\<forall>a \<in> set (approvals st).
                     purchase_request_id a = Some (pr_id pr) \<and> action a = ''approved''
                     \<longrightarrow> approval_level a \<in> set (map al_id (required_approval_levels st pr)))"
  shows "\<exists>pr u. get_object st req pk = Some pr \<and> user req = Some u \<and>
           (if \<forall>l \<in> set (required_approval_levels st' pr).
                  \<exists>a \<in> set (approvals st').
                    purchase_request_id a = Some (pr_id pr) \<and> action a = ''approved''
                    \<and> approval_level a = al_id l
            then (\<forall>r \<in> set (purchase_requests st').
                    pr_id r = pr_id pr
                    \<longrightarrow> status r = ''approved'' \<and> approved_by r = Some (user_id u))
                 \<and> tasks st' = tasks st @ [generate_purchase_order_task (pr_id pr)]
            else purchase_requests st' = purchase_requests st \<and> tasks st' = tasks st)"
proof -
  from handle_reaches_record_decision [OF run ok] obtain pr u lvl cmts where
    pr: "get_object st req pk = Some pr" and u: "user req = Some u"
    and mem: "lvl \<in> set (required_approval_levels st pr)"
    and rd: "record_decision st u pr lvl (required_approval_levels st pr) ''approved'' cmts
               now new_id = (st', resp)" by blast
  from record_decision_approved [OF rd ok refl] obtain a where
    a: "action a = ''approved''" "approval_level a = al_id lvl"
       "purchase_request_id a = Some (pr_id pr)"
    and st': "st' = (if approved_levels_count (st\<lparr>approvals := approvals st @ [a]\<rparr>) pr
                          \<ge> length (required_approval_levels st pr)
                       then (PurchaseRequest_save (st\<lparr>approvals := approvals st @ [a]\<rparr>)
                               (pr\<lparr>status := ''approved'', approved_by := Some (user_id u)\<rparr>))
                            \<lparr>tasks := tasks st @ [generate_purchase_order_task (pr_id pr)]\<rparr>
                       else st\<lparr>approvals := approvals st @ [a]\<rparr>)" by blast
  let ?st2 = "st\<lparr>approvals := approvals st @ [a]\<rparr>"
  have levels2: "required_approval_levels ?st2 pr = required_approval_levels st pr"
    by (simp add: required_approval_levels_def)
  have keys2: "distinct (map al_id (approval_levels ?st2))" using keys by simp
  have within2: "\<forall>b \<in> set (approvals ?st2).
                   purchase_request_id b = Some (pr_id pr) \<and> action b = ''approved''
                   \<longrightarrow> approval_level b \<in> set (map al_id (required_approval_levels ?st2 pr))"
    unfolding levels2 using within pr mem a(2) by auto
  note iff = approved_count_reaches_required_iff [OF keys2 within2, unfolded levels2]
  have "if \<forall>l \<in> set (required_approval_levels st' pr).
                  \<exists>a \<in> set (approvals st').
                    purchase_request_id a = Some (pr_id pr) \<and> action a = ''approved''
                    \<and> approval_level a = al_id l
            then (\<forall>r \<in> set (purchase_requests st').
                    pr_id r = pr_id pr
                    \<longrightarrow> status r = ''approved'' \<and> approved_by r = Some (user_id u))
                 \<and> tasks st' = tasks st @ [generate_purchase_order_task (pr_id pr)]
            else purchase_requests st' = purchase_requests st \<and> tasks st' = tasks st"
  proof (cases "approved_levels_count ?st2 pr \<ge> length (required_approval_levels st pr)")
    case True
    with st' have eq: "st' = (PurchaseRequest_save ?st2
                               (pr\<lparr>status := ''approved'', approved_by := Some (user_id u)\<rparr>))
                            \<lparr>tasks := tasks st @ [generate_purchase_order_task (pr_id pr)]\<rparr>"
      by simp
    have ap: "approvals st' = approvals ?st2"
      and lv: "required_approval_levels st' pr = required_approval_levels st pr"
      by (simp_all add: eq PurchaseRequest_save_def required_approval_levels_def)
    have rows: "\<forall>r \<in> set (purchase_requests st').
                    pr_id r = pr_id pr
                    \<longrightarrow> status r = ''approved'' \<and> approved_by r = Some (user_id u)"
      by (auto simp: eq PurchaseRequest_save_def)
    have tk: "tasks st' = tasks st @ [generate_purchase_order_task (pr_id pr)]"
      by (simp add: eq)
    from True iff have "\<forall>l \<in> set (required_approval_levels st pr).
                  \<exists>b \<in> set (approvals ?st2).
                    purchase_request_id b = Some (pr_id pr) \<and> action b = ''approved''
                    \<and> approval_level b = al_id l" by simp
    with rows tk show ?thesis unfolding ap lv by simp
  next
    case False
    with st' have eq: "st' = ?st2" by simp
    from False iff have "\<not> (\<forall>l \<in> set (required_approval_levels st pr).
                  \<exists>b \<in> set (approvals ?st2).
                    purchase_request_id b = Some (pr_id pr) \<and> action b = ''approved''
                    \<and> approval_level b = al_id l)" by simp
    thus ?thesis unfolding eq levels2 by simp
  qed
  with pr u show ?thesis by blast
qed

text \<open>
  C1, evaluated on the code. The request below belongs to a type whose required levels
  are 21 and 22. Its only earlier approval is at level 11, a level of the type it had
  before its owner changed the type. The level-2 approver's approve call is recorded at
  level 22; the count of distinct approved levels (11 and 22) reaches the count of
  required levels (two), so the request becomes \<^verbatim>\<open>approved\<close>, \<open>approved_by\<close> is the caller
  and the purchase-order task is enqueued, although required level 21 has no approved
  Approval.
\<close>

theorem approve_counts_levels_of_other_types:
  "approve retyped_state \<lparr>user = Some approver_two, status_param = None\<rparr> 100 Missing 6 501
     = retyped_outcome
   \<and> map al_id (required_approval_levels retyped_state (laptops\<lparr>request_type := 2\<rparr>))
       = [21, 22]
   \<and> map approval_level (filter (\<lambda>a. action a = ''approved'') (approvals (fst retyped_outcome)))
       = [11, 22]
   \<and> map status (purchase_requests (fst retyped_outcome)) = [''approved'']
   \<and> map approved_by (purchase_requests (fst retyped_outcome)) = [Some 9]
   \<and> tasks (fst retyped_outcome) = [generate_purchase_order_task 100]"
  by code_simp

subsection \<open>File validation\<close>








subsection \<open>The total price of a line item\<close>

lemma ndigits_bound: "n < 10 ^ k \<Longrightarrow> 0 < k \<Longrightarrow> ndigits n \<le> k"
proof (induction k arbitrary: n)
  case 0
  then show ?case by simp
next
  case (Suc k)
  show ?case
  proof (cases "n < 10")
    case True
    then show ?thesis by (simp add: ndigits.simps)
  next
    case False
    hence k: "0 < k" using Suc.prems(1) by (cases k) auto
    from Suc.prems(1) have "n div 10 < 10 ^ k" by simp
    from Suc.IH [OF this k] False show ?thesis
      by (subst ndigits.simps) simp
  qed
qed

lemma Decimal_mul_exact:
  assumes "\<bar>coefficient a * coefficient b\<bar> < 10 ^ 28"
  shows "Decimal_mul a b = \<lparr>coefficient = coefficient a * coefficient b,
                            exponent = exponent a + exponent b\<rparr>"
  using ndigits_bound [OF assms] by (simp add: Decimal_mul_def context_round_def context_prec_def)

lemma adapt_two_places:
  assumes "adapt_decimalfield_value b d = Inr r" and "exponent d \<ge> - 2"
  shows "r = \<lparr>coefficient = coefficient d * 10 ^ nat (exponent d + 2), exponent = - 2\<rparr>"
  using assms
  by (auto simp: adapt_decimalfield_value_def quantize_places_def Let_def split: if_splits)

lemma Model_save_item_written:
  assumes "Model_save_item st item = Inr (st', row)"
  shows "row \<in> set (request_items st') \<and> quantity row = quantity item
       \<and> ri_description row = ri_description item \<and> 0 \<le> quantity item
       \<and> (\<exists>t0 u t. total_price item = Some t0
              \<and> adapt_decimalfield_value (backend st) (to_python (unit_price item)) = Inr u
              \<and> adapt_decimalfield_value (backend st) t0 = Inr t
              \<and> unit_price row = DecimalNumber u \<and> total_price row = Some t)"
proof -
  from assms have q: "0 \<le> quantity item"
    by (auto simp: Model_save_item_def split: if_splits)
  from assms obtain u where
    u: "adapt_decimalfield_value (backend st) (to_python (unit_price item)) = Inr u"
    by (cases "adapt_decimalfield_value (backend st) (to_python (unit_price item))")
       (auto simp: Model_save_item_def split: if_splits)
  from assms u obtain t0 where t0: "total_price item = Some t0"
    by (cases "total_price item") (auto simp: Model_save_item_def split: if_splits)
  from assms u t0 obtain t where t: "adapt_decimalfield_value (backend st) t0 = Inr t"
    by (cases "adapt_decimalfield_value (backend st) t0")
       (auto simp: Model_save_item_def split: if_splits)
  let ?written = "item\<lparr>unit_price := DecimalNumber u, total_price := Some t\<rparr>"
  from assms u t0 t have
    "row \<in> set (request_items st') \<and> (row = ?written \<or> row = ?written\<lparr>ri_id := Some (item_seq st)\<rparr>)"
    by (auto simp: Model_save_item_def Let_def split: if_splits option.splits)
  hence "row \<in> set (request_items st') \<and> quantity row = quantity item
       \<and> ri_description row = ri_description item
       \<and> unit_price row = DecimalNumber u \<and> total_price row = Some t" by auto
  with q u t0 t show ?thesis by blast
qed

text \<open>
  A unit price with more than two decimal places. The serializers pass the float 0.335
  for the JSON number 0.335; with quantity 3 \<^verbatim>\<open>save\<close> computes the total 1.005. The row
  holds two decimal places: the unit price 0.34 and the total 1.01 on PostgreSQL, 1.00 on
  SQLite. The stored total is neither 3 times 0.335 nor 3 times the stored unit price.
\<close>

theorem rounded_total_is_not_the_product:
  "RequestItem_save shared_role_state cables
     = Inr (shared_role_state\<lparr>request_items := [cables_stored PostgreSQL], item_seq := 2\<rparr>,
            cables_stored PostgreSQL)
   \<and> RequestItem_save (shared_role_state\<lparr>backend := SQLite\<rparr>) cables
     = Inr (shared_role_state\<lparr>backend := SQLite, request_items := [cables_stored SQLite],
                               item_seq := 2\<rparr>,
            cables_stored SQLite)
   \<and> Decimal_mul (Decimal_of_int 3) \<lparr>coefficient = 335, exponent = - 3\<rparr>
       = \<lparr>coefficient = 1005, exponent = - 3\<rparr>
   \<and> \<not> Decimal_eq \<lparr>coefficient = 101, exponent = - 2\<rparr> \<lparr>coefficient = 1005, exponent = - 3\<rparr>
   \<and> \<not> Decimal_eq \<lparr>coefficient = 100, exponent = - 2\<rparr> \<lparr>coefficient = 1005, exponent = - 3\<rparr>
   \<and> Decimal_mul (Decimal_of_int 3) \<lparr>coefficient = 34, exponent = - 2\<rparr>
       = \<lparr>coefficient = 102, exponent = - 2\<rparr>
   \<and> \<not> Decimal_eq \<lparr>coefficient = 101, exponent = - 2\<rparr> \<lparr>coefficient = 102, exponent = - 2\<rparr>
   \<and> \<not> Decimal_eq \<lparr>coefficient = 100, exponent = - 2\<rparr> \<lparr>coefficient = 102, exponent = - 2\<rparr>"
  by code_simp

text \<open>
  C5, for unit prices of at most two decimal places. When \<^verbatim>\<open>RequestItem.save\<close> succeeds
  for an instance whose unit price has at most two decimal places, the row it wrote
  carries the instance's quantity, and its total price is exactly the quantity times the
  unit price: in hundredths, the quantity times the hundredths of the unit price,
  whatever total the caller had set. A unit price given as a Decimal is stored with the
  same value. The quantity is bounded as in a \<^verbatim>\<open>PositiveIntegerField\<close> of PostgreSQL and the
  unit price has at most 18 digits, which covers the declared \<^verbatim>\<open>max_digits=10\<close> and every
  float.
\<close>

theorem saved_total_is_quantity_times_unit_price:
  assumes saved: "RequestItem_save st item = Inr (st', row)"
    and qty: "quantity item \<le> 2147483647"
    and digits: "\<bar>coefficient (Decimal_of_str (unit_price item))\<bar> < 10 ^ 18"
    and places: "exponent (Decimal_of_str (unit_price item)) \<ge> - 2"
  shows "row \<in> set (request_items st') \<and> quantity row = quantity item
       \<and> total_price row
           = Some \<lparr>coefficient =
                     quantity item
                     * (coefficient (Decimal_of_str (unit_price item))
                        * 10 ^ nat (exponent (Decimal_of_str (unit_price item)) + 2)),
                   exponent = - 2\<rparr>
       \<and> (unit_price item = DecimalNumber d
            \<longrightarrow> unit_price row
                  = DecimalNumber \<lparr>coefficient = coefficient d * 10 ^ nat (exponent d + 2),
                                   exponent = - 2\<rparr>)"
proof -
  let ?d = "Decimal_of_str (unit_price item)"
  let ?product = "Decimal_mul (Decimal_of_int (quantity item)) ?d"
  from saved have run: "Model_save_item st (item\<lparr>total_price := Some ?product\<rparr>) = Inr (st', row)"
    by (simp add: RequestItem_save_def Let_def)
  from Model_save_item_written [OF run] obtain u t where
    row: "row \<in> set (request_items st')" "quantity row = quantity item"
    and nonneg: "0 \<le> quantity item"
    and u: "adapt_decimalfield_value (backend st) (to_python (unit_price item)) = Inr u"
    and t: "adapt_decimalfield_value (backend st) ?product = Inr t"
    and cols: "unit_price row = DecimalNumber u" "total_price row = Some t"
    by auto
  have "\<bar>quantity item * coefficient ?d\<bar> = quantity item * \<bar>coefficient ?d\<bar>"
    using nonneg by (simp add: abs_mult)
  also have "\<dots> \<le> 2147483647 * \<bar>coefficient ?d\<bar>"
    using qty by (simp add: mult_right_mono)
  also have "\<dots> < 2147483647 * 10 ^ 18"
    using digits by simp
  also have "\<dots> < (10::int) ^ 28" by simp
  finally have small: "\<bar>coefficient (Decimal_of_int (quantity item)) * coefficient ?d\<bar> < 10 ^ 28"
    by (simp add: Decimal_of_int_def)
  have product: "?product = \<lparr>coefficient = quantity item * coefficient ?d, exponent = exponent ?d\<rparr>"
    using Decimal_mul_exact [OF small] by (simp add: Decimal_of_int_def)
  have "exponent ?product \<ge> - 2" using places by (simp add: product)
  from adapt_two_places [OF t this]
  have total: "t = \<lparr>coefficient = quantity item * (coefficient ?d * 10 ^ nat (exponent ?d + 2)),
                    exponent = - 2\<rparr>"
    by (simp add: product mult.assoc)
  have unit: "u = \<lparr>coefficient = coefficient d * 10 ^ nat (exponent d + 2), exponent = - 2\<rparr>"
    if "unit_price item = DecimalNumber d"
  proof -
    from that have "to_python (unit_price item) = d" "?d = d"
      by (simp_all add: to_python_def Decimal_of_str_def)
    with u places adapt_two_places [of "backend st" d u] show ?thesis by simp
  qed
  from row cols total unit show ?thesis by simp
qed

theorem saved_total_is_quantity_times_unit_price_witness:
  "RequestItem_save shared_role_state monitors
     = Inr (shared_role_state\<lparr>request_items := [monitors_stored], item_seq := 2\<rparr>,
            monitors_stored)
   \<and> total_price monitors = Some \<lparr>coefficient = 1, exponent = 0\<rparr>
   \<and> monitors_stored
       \<in> set (request_items
                (shared_role_state\<lparr>request_items := [monitors_stored], item_seq := 2\<rparr>))
   \<and> quantity monitors_stored = 5
   \<and> unit_price monitors_stored = DecimalNumber \<lparr>coefficient = 20000, exponent = - 2\<rparr>
   \<and> total_price monitors_stored = Some \<lparr>coefficient = 5 * 20000, exponent = - 2\<rparr>"
proof -
  have run: "RequestItem_save shared_role_state monitors
     = Inr (shared_role_state\<lparr>request_items := [monitors_stored], item_seq := 2\<rparr>,
            monitors_stored)"
    by code_simp
  have q: "quantity monitors \<le> 2147483647"
    and p: "\<bar>coefficient (Decimal_of_str (unit_price monitors))\<bar> < 10 ^ 18"
    and e: "exponent (Decimal_of_str (unit_price monitors)) \<ge> - 2"
    and d: "unit_price monitors = DecimalNumber \<lparr>coefficient = 20000, exponent = - 2\<rparr>"
    and given: "total_price monitors = Some \<lparr>coefficient = 1, exponent = 0\<rparr>"
    by (simp_all add: monitors_def Decimal_of_str_def)
  from saved_total_is_quantity_times_unit_price
         [OF run q p e, of "\<lparr>coefficient = 20000, exponent = - 2\<rparr>"] d run given
  show ?thesis
    by (simp add: monitors_def Decimal_of_str_def)
qed

subsection \<open>Items that are not valid JSON\<close>










subsection \<open>Editing a request that is no longer pending\<close>

lemma final_status_not_editable: "is_final_status pr \<Longrightarrow> \<not> can_be_edited pr"
  by (auto simp: is_final_status_def can_be_edited_def)

lemma Update_is_valid_not_pending:
  "\<not> can_be_edited instance \<Longrightarrow> \<exists>errors. Update_is_valid py instance rdata = Inl errors"
  by (simp add: Update_is_valid_def Let_def)

text \<open>
  Whoever calls, superuser or not: an update of a request in a final status is answered
  with 400, 401 or 403 and changes nothing.
\<close>

lemma update_of_final_request_refused:
  assumes "get_object st req pk = Some instance" and "is_final_status instance"
  shows "fst (update_view py st req pk rdata) = st
       \<and> status_code (snd (update_view py st req pk rdata)) \<in> {400, 401, 403}"
proof -
  from assms(2) have "\<not> can_be_edited instance" by (rule final_status_not_editable)
  from Update_is_valid_not_pending [OF this] obtain errors where
    "Update_is_valid py instance rdata = Inl errors" by blast
  with assms(1) show ?thesis
    by (simp add: update_view_def split: option.splits)
qed

text \<open>
  C3, evaluated on the code. Request 100 is approved. A superuser sends an update whose
  fields are all valid. The view lets the superuser past its own pending check, but the
  serializer's \<^verbatim>\<open>validate\<close> refuses any instance that is not pending, so the answer is 400
  and nothing is changed: the superuser does not bypass the restriction.
\<close>

theorem superuser_update_of_approved_request_refused:
  "update_view py settled_state \<lparr>user = Some admin_user, status_param = None\<rparr> 100 chairs_data
     = (settled_state,
        \<lparr>status_code = 400, data = FieldErrors [(''non_field_errors'', NotPending)]\<rparr>)
   \<and> is_superuser admin_user
   \<and> map is_final_status (purchase_requests settled_state) = [True]"
  by (simp add: update_view_def get_object_def get_queryset_def status_filtered_def
      Update_is_valid_def Update_coerce_items_def run_items_field_def required_field_def
      optional_field_def can_be_edited_def is_final_status_def settled_state_def laptops_def
      admin_user_def chairs_data_def Let_def)


subsection \<open>Items on update\<close>

text \<open>
  C4, evaluated on the code. The owner of pending request 100 sends an update whose
  items list holds one item with an empty description. The update stores it: a
  RequestItem with the empty description is persisted. The same body sent to the create
  view stores no item, because only \<^verbatim>\<open>create\<close> strips the description and tests it.
\<close>

theorem update_persists_item_with_empty_description:
  "request_items (fst (update_view py shared_role_state
       \<lparr>user = Some staff_owner, status_param = None\<rparr> 100
       (chairs_data\<lparr>d_items := Some (PyList [blank_item])\<rparr>)))
     = [\<lparr>ri_id = Some 1, ri_purchase_request = 100, ri_description = [], quantity = 2,
         unit_price = DecimalNumber \<lparr>coefficient = 550, exponent = - 2\<rparr>,
         total_price = Some \<lparr>coefficient = 1100, exponent = - 2\<rparr>\<rparr>]
   \<and> status_code (snd (update_view py shared_role_state
       \<lparr>user = Some staff_owner, status_param = None\<rparr> 100
       (chairs_data\<lparr>d_items := Some (PyList [blank_item])\<rparr>))) = 200
   \<and> request_items (fst (create_view py default_settings shared_role_state
       \<lparr>user = Some staff_owner, status_param = None\<rparr>
       (chairs_data\<lparr>d_items := Some (PyList [blank_item])\<rparr>) 3 101)) = []
   \<and> status_code (snd (create_view py default_settings shared_role_state
       \<lparr>user = Some staff_owner, status_param = None\<rparr>
       (chairs_data\<lparr>d_items := Some (PyList [blank_item])\<rparr>) 3 101)) = 201"
  by code_simp

subsection \<open>The one-cent tolerance of receipt validation\<close>

text \<open>
  C8, evaluated on the code. The receipt total 1500.13 and the purchase request amount
  1500.12 differ by exactly 0.01, yet the comparison appends a total-level
  \<^verbatim>\<open>price_mismatch\<close>: the float nearest to 1500.13 minus the float nearest to 1500.12 is
  larger than the float nearest to 0.01. For 1000.01 against 1000.00 the same one-cent
  difference appends nothing, and for 1000.02 against 1000.00 exactly one
  \<^verbatim>\<open>price_mismatch\<close> is appended, with the amount as \<open>expected\<close> and the receipt total as
  \<open>actual\<close>.
\<close>

theorem one_cent_difference_flagged:
  "compare_total_amount \<lparr>coefficient = 150013, exponent = - 2\<rparr>
                        \<lparr>coefficient = 150012, exponent = - 2\<rparr>
     = [\<lparr>kind = ''price_mismatch'',
         expected = \<lparr>significand = 6597597532237332, exponent2 = - 42\<rparr>,
         actual = \<lparr>significand = 6597641512702444, exponent2 = - 42\<rparr>\<rparr>]
   \<and> compare_total_amount \<lparr>coefficient = 100001, exponent = - 2\<rparr>
                          \<lparr>coefficient = 100000, exponent = - 2\<rparr> = []
   \<and> compare_total_amount \<lparr>coefficient = 100002, exponent = - 2\<rparr>
                          \<lparr>coefficient = 100000, exponent = - 2\<rparr>
     = [\<lparr>kind = ''price_mismatch'',
         expected = float_of_Decimal \<lparr>coefficient = 100000, exponent = - 2\<rparr>,
         actual = float_of_Decimal \<lparr>coefficient = 100002, exponent = - 2\<rparr>\<rparr>]"
  by code_simp

end
